theory Spec2Isabelle
  imports Main "HOL-Library.Sublist" "HOL-Library.Word"
begin

section \<open>Python values used by \<open>scapy/arch/windows/__init__.py\<close>\<close>

text \<open>
  Strings and byte strings are both \<^typ>\<open>string\<close> (a list of 8-bit characters); Python
  integers are \<^typ>\<open>int\<close>; a raw byte buffer read from a ctypes structure is a list of
  8-bit words. An exception is a value of \<open>py_error\<close> carried in the left summand of a
  result; only the exception class is kept, since every \<open>except\<close> clause of the module
  selects on the class alone. \<open>OtherError\<close> stands for any other subclass of
  \<open>Exception\<close> that an external collaborator may raise.
\<close>

type_synonym byte = "8 word"

datatype py_error =
    OSError
  | Scapy_Exception
  | ValueError
  | KeyError
  | EOFError
  | OtherError string

subsection \<open>String methods\<close>

definition ascii_lower :: string where
  "ascii_lower = ''abcdefghijklmnopqrstuvwxyz''"

definition ascii_upper :: string where
  "ascii_upper = ''ABCDEFGHIJKLMNOPQRSTUVWXYZ''"

definition lower_char :: "char \<Rightarrow> char" where
  "lower_char c = (case map_of (zip ascii_upper ascii_lower) c of Some d \<Rightarrow> d | None \<Rightarrow> c)"

definition upper_char :: "char \<Rightarrow> char" where
  "upper_char c = (case map_of (zip ascii_lower ascii_upper) c of Some d \<Rightarrow> d | None \<Rightarrow> c)"

text \<open>\<open>s.lower()\<close> and \<open>s.upper()\<close>, on the ASCII letters.\<close>

definition py_lower :: "string \<Rightarrow> string" where
  "py_lower s = map lower_char s"

definition py_upper :: "string \<Rightarrow> string" where
  "py_upper s = map upper_char s"

text \<open>\<open>s.strip()\<close>: leading and trailing ASCII white space removed.\<close>

definition is_space :: "char \<Rightarrow> bool" where
  "is_space c = (c \<in> set [CHR 0x09, CHR 0x0A, CHR 0x0B, CHR 0x0C, CHR 0x0D, CHR 0x20])"

definition py_strip :: "string \<Rightarrow> string" where
  "py_strip s = rev (dropWhile is_space (rev (dropWhile is_space s)))"

text \<open>\<open>a in b\<close> on strings: \<open>a\<close> occurs as a contiguous substring of \<open>b\<close>.\<close>

fun py_in :: "string \<Rightarrow> string \<Rightarrow> bool" where
  "py_in a [] = (a = [])"
| "py_in a (c # cs) = (prefix a (c # cs) \<or> py_in a cs)"

text \<open>\<open>sep.join(parts)\<close>.\<close>

fun py_join :: "string \<Rightarrow> string list \<Rightarrow> string" where
  "py_join sep [] = []"
| "py_join sep [p] = p"
| "py_join sep (p # q # ps) = p @ sep @ py_join sep (q # ps)"

text \<open>
  \<open>s.replace(old, new)\<close> for a non-empty \<open>old\<close>: occurrences are replaced from left to
  right without overlap. The counter is the number of characters of the occurrence just
  matched that are still to be skipped.
\<close>

fun py_replace_from :: "nat \<Rightarrow> string \<Rightarrow> string \<Rightarrow> string \<Rightarrow> string" where
  "py_replace_from k old new [] = []"
| "py_replace_from (Suc k) old new (c # cs) = py_replace_from k old new cs"
| "py_replace_from 0 old new (c # cs) =
     (if prefix old (c # cs) then new @ py_replace_from (length old - 1) old new cs
      else c # py_replace_from 0 old new cs)"

definition py_replace :: "string \<Rightarrow> string \<Rightarrow> string \<Rightarrow> string" where
  "py_replace old new s = py_replace_from 0 old new s"

text \<open>\<open>s[1:-1]\<close>: the string without its first and last character.\<close>

definition slice_1_m1 :: "string \<Rightarrow> string" where
  "slice_1_m1 s = butlast (tl s)"

text \<open>\<open>b.rstrip(b"\x00")\<close> on a byte buffer.\<close>

definition rstrip_zero :: "byte list \<Rightarrow> byte list" where
  "rstrip_zero b = rev (dropWhile (\<lambda>x. x = 0) (rev b))"

text \<open>
  \<open>data == "monitor"\<close> where \<open>data\<close> is what \<open>Popen.communicate\<close> returned: under
  Python 2 both sides are \<open>str\<close> and are compared by content; under Python 3 the left
  side is \<open>bytes\<close>, which never equals a \<open>str\<close>.
\<close>

definition bytes_eq_str :: "bool \<Rightarrow> string \<Rightarrow> string \<Rightarrow> bool" where
  "bytes_eq_str py2 b s = (py2 \<and> b = s)"

section \<open>Configuration, constants and external collaborators\<close>

text \<open>
  The Windows values of \<open>socket.AF_INET\<close> and \<open>socket.AF_INET6\<close>.
\<close>

definition AF_INET :: int where
  "AF_INET = 2"

definition AF_INET6 :: int where
  "AF_INET6 = 23"

text \<open>
  A \<open>SOCKADDR_INET\<close> union as the module reads it: the family tag and the address bytes
  seen through the \<open>Ipv4.sin_addr\<close> and the \<open>Ipv6.sin6_addr\<close> member.
\<close>

record sockaddr_inet =
  si_family :: int
  Ipv4_sin_addr :: "byte list"
  Ipv6_sin6_addr :: "byte list"

text \<open>
  One record of \<open>GetAdaptersAddresses()\<close>. An address chain that is not a list
  (\<open>not isinstance(y, list)\<close>) is \<open>None\<close>.
\<close>

record raw_adapter =
  friendly_name :: string
  interface_index :: int
  x_description :: string
  adapter_name :: string
  physical_address_length :: int
  physical_address :: "byte list"
  x_ipv4_metric :: int
  x_ipv6_metric :: int
  first_unicast_address :: "sockaddr_inet list option"
  first_anycast_address :: "sockaddr_inet list option"
  first_multicast_address :: "sockaddr_inet list option"

text \<open>
  The dictionary handed to \<open>NetworkInterface.update\<close>. Every dictionary built in the
  module (by \<open>get_windows_if_list\<close>, by \<open>load\<close> for the address cache and by
  \<open>route_add_loopback\<close>) has the eight keys read unconditionally; \<open>netid\<close> and
  \<open>invalid\<close> are the two keys tested with \<open>in\<close>.
\<close>

record if_data =
  d_name :: string
  d_description :: string
  d_win_index :: int
  d_guid :: string
  d_mac :: string
  d_ipv4_metric :: int
  d_ipv6_metric :: int
  d_ips :: "string list"
  d_netid :: "string option"
  d_invalid :: "bool option"

text \<open>
  A \<open>NetworkInterface\<close> object. The attributes that \<open>__init__\<close> sets to \<open>None\<close> and
  that stay optional afterwards (\<open>ip\<close>, \<open>pcap_name\<close>, \<open>raw80211\<close>,
  \<open>cache_mode\<close>) are options.
\<close>

record network_interface =
  name :: string
  ip :: "string option"
  mac :: string
  pcap_name :: "string option"
  description :: string
  invalid :: bool
  raw80211 :: "bool option"
  cache_mode :: "bool option"
  ipv4_metric :: int
  ipv6_metric :: int
  ips :: "string list"
  win_index :: int
  guid :: string

text \<open>
  \<open>conf\<close>, \<open>conf.prog\<close>, \<open>scapy.consts\<close> and \<open>six.PY2\<close>: the settings and constants
  the module reads. \<open>cache_iflist\<close> is the dictionary from a logical name to
  (identifier, address list), in iteration order.
\<close>

record config =
  use_npcap :: bool
  use_pcap :: bool
  use_winpcapy :: bool
  interactive :: bool
  os_access :: bool
  powershell :: "string option"
  cache_iflist :: "(string \<times> string \<times> string list) list"
  WINDOWS_XP :: bool
  PY2 :: bool
  LOOPBACK_NAME :: string
  NPCAP_PATH :: string

text \<open>One row of \<open>GetIpForwardTable()\<close> and one of \<open>GetIpForwardTable2(af)\<close>.\<close>

record forward_row =
  ForwardIfIndex :: int
  ForwardDest :: int
  ForwardMask :: int
  ForwardNextHop :: "32 word"
  ForwardMetric1 :: int

record forward_row2 =
  InterfaceIndex :: int
  DestinationPrefix_Prefix :: sockaddr_inet
  NextHop :: sockaddr_inet
  Metric :: int

text \<open>
  What the module imports and calls but does not define: the OS table calls, the capture
  subsystem's device list, the address helpers of \<open>scapy.utils\<close>, \<open>scapy.utils6\<close> and
  \<open>scapy.pton_ntop\<close>, the registry value read by \<open>_get_npcap_dot11_adapters\<close>
  (\<open>None\<close> when the key is missing) and the process launcher. \<open>Popen\<close> gives the
  return code and the standard output of a command, given the commands run before it.
\<close>

record os_env =
  GetAdaptersAddresses :: "py_error + raw_adapter list"
  GetIpForwardTable :: "py_error + forward_row list"
  GetIpForwardTable2 :: "int \<Rightarrow> py_error + forward_row2 list"
  get_if_list :: "string list"
  inet_ntop :: "int \<Rightarrow> byte list \<Rightarrow> py_error + string"
  atol :: "string \<Rightarrow> py_error + int"
  itom :: "int \<Rightarrow> int"
  in6_getscope :: "string \<Rightarrow> int"
  construct_source_candidate_set ::
    "string \<Rightarrow> int \<Rightarrow> (string \<times> int \<times> network_interface) list \<Rightarrow> string list"
  Dot11Adapters :: "string option"
  Popen :: "string list \<Rightarrow> string \<Rightarrow> int \<times> string"

text \<open>
  A log record: \<open>warning(fmt, *args)\<close> (which is \<open>log_runtime.warning\<close>),
  \<open>log_runtime.error\<close>, \<open>log_loading.info\<close>.
\<close>

datatype log_record =
    Warning string "py_error list"
  | RuntimeError string
  | LoadingInfo string

text \<open>
  The mutable state of the process: the registry \<open>IFACES.data\<close> (a dictionary, kept in
  iteration order), the attribute \<open>IFACES.restarted_adapter\<close> (\<open>None\<close> while it is
  not set), \<open>scapy.consts.LOOPBACK_INTERFACE\<close>, the records logged so far, the commands
  run so far, and the lines still to be read from standard input (\<open>input()\<close> raises
  \<open>EOFError\<close> when none is left).
\<close>

record world =
  IFACES_data :: "(string \<times> network_interface) list"
  restarted_adapter :: "bool option"
  LOOPBACK_INTERFACE :: "network_interface option"
  logs :: "log_record list"
  history :: "string list"
  stdin :: "string list"

text \<open>\<open>d[k] = v\<close> and \<open>k in d\<close> on a dictionary kept in iteration order.\<close>

fun dict_set :: "('k \<times> 'v) list \<Rightarrow> 'k \<Rightarrow> 'v \<Rightarrow> ('k \<times> 'v) list" where
  "dict_set [] k v = [(k, v)]"
| "dict_set ((k', v') # d) k v =
     (if k' = k then (k, v) # d else (k', v') # dict_set d k v)"

definition dict_has :: "('k \<times> 'v) list \<Rightarrow> 'k \<Rightarrow> bool" where
  "dict_has d k = (k \<in> set (map fst d))"

definition itervalues :: "('k \<times> 'v) list \<Rightarrow> 'v list" where
  "itervalues d = map snd d"

section \<open>Adapter Record Normalizer\<close>

text \<open>
  Modelled from the spec: \<open>str2mac\<close> is imported from \<open>scapy.utils\<close>, which is not part
  of the sources at hand. The spec calls its result the canonical colon-hex string: every
  byte as two lower-case hexadecimal digits, the bytes separated by colons.
\<close>

definition hex_digit :: "nat \<Rightarrow> char" where
  "hex_digit n = ''0123456789abcdef'' ! n"

definition hex2 :: "byte \<Rightarrow> string" where
  "hex2 b = [hex_digit (unat b div 16), hex_digit (unat b mod 16)]"

definition str2mac :: "byte list \<Rightarrow> string" where
  "str2mac s = py_join '':'' (map hex2 s)"

text \<open>
  \<open>_get_mac\<close>, local to \<open>get_windows_if_list\<close>: \<open>bytes(data)[:size]\<close> is reached with
  \<open>size = 6\<close> only.
\<close>

definition get_mac :: "raw_adapter \<Rightarrow> string" where
  "get_mac x =
     (let size = physical_address_length x in
      if size \<noteq> 6 then ''''
      else str2mac (take (nat size) (physical_address x)))"

text \<open>\<open>_resolve_ips\<close>: the loop over an address chain.\<close>

fun resolve_ips_loop :: "os_env \<Rightarrow> sockaddr_inet list \<Rightarrow> py_error + string list" where
  "resolve_ips_loop os [] = Inr []"
| "resolve_ips_loop os (addr # y) =
     (let data = (if si_family addr = AF_INET6 then Ipv6_sin6_addr addr
                  else Ipv4_sin_addr addr)
      in if data \<noteq> [] then
           (case inet_ntop os (si_family addr) data of
              Inl e \<Rightarrow> Inl e
            | Inr s \<Rightarrow>
                (case resolve_ips_loop os y of
                   Inl e \<Rightarrow> Inl e
                 | Inr r \<Rightarrow> Inr (s # r)))
         else resolve_ips_loop os y)"

definition resolve_ips :: "os_env \<Rightarrow> sockaddr_inet list option \<Rightarrow> py_error + string list" where
  "resolve_ips os y = (case y of None \<Rightarrow> Inr [] | Some l \<Rightarrow> resolve_ips_loop os l)"

text \<open>\<open>_get_ips\<close>, local to \<open>get_windows_if_list\<close>.\<close>

definition get_ips_adapter :: "os_env \<Rightarrow> bool \<Rightarrow> raw_adapter \<Rightarrow> py_error + string list" where
  "get_ips_adapter os extended x =
     (case resolve_ips os (first_unicast_address x) of
        Inl e \<Rightarrow> Inl e
      | Inr u \<Rightarrow>
          if extended then
            (case resolve_ips os (first_anycast_address x) of
               Inl e \<Rightarrow> Inl e
             | Inr a \<Rightarrow>
                 (case resolve_ips os (first_multicast_address x) of
                    Inl e \<Rightarrow> Inl e
                  | Inr m \<Rightarrow> Inr (u @ a @ m)))
          else Inr u)"

text \<open>
  The list comprehension of \<open>get_windows_if_list\<close>. Strings are byte strings here, so
  \<open>_str_decode\<close> leaves them as they are.
\<close>

definition normalize_adapter :: "config \<Rightarrow> os_env \<Rightarrow> bool \<Rightarrow> raw_adapter \<Rightarrow> py_error + if_data" where
  "normalize_adapter conf os extended x =
     (case get_ips_adapter os extended x of
        Inl e \<Rightarrow> Inl e
      | Inr l \<Rightarrow>
          Inr \<lparr> d_name = friendly_name x,
                d_description = x_description x,
                d_win_index = interface_index x,
                d_guid = adapter_name x,
                d_mac = get_mac x,
                d_ipv4_metric = (if WINDOWS_XP conf then 0 else x_ipv4_metric x),
                d_ipv6_metric = (if WINDOWS_XP conf then 0 else x_ipv6_metric x),
                d_ips = l,
                d_netid = None,
                d_invalid = None \<rparr>)"

fun normalize_all :: "config \<Rightarrow> os_env \<Rightarrow> bool \<Rightarrow> raw_adapter list \<Rightarrow> py_error + if_data list" where
  "normalize_all conf os extended [] = Inr []"
| "normalize_all conf os extended (x # xs) =
     (case normalize_adapter conf os extended x of
        Inl e \<Rightarrow> Inl e
      | Inr d \<Rightarrow>
          (case normalize_all conf os extended xs of
             Inl e \<Rightarrow> Inl e
           | Inr ds \<Rightarrow> Inr (d # ds)))"

definition get_windows_if_list :: "config \<Rightarrow> os_env \<Rightarrow> bool \<Rightarrow> py_error + if_data list" where
  "get_windows_if_list conf os extended =
     (case GetAdaptersAddresses os of
        Inl e \<Rightarrow> Inl e
      | Inr adapters \<Rightarrow> normalize_all conf os extended adapters)"

section \<open>NetworkInterface\<close>

definition is_invalid :: "network_interface \<Rightarrow> bool" where
  "is_invalid self = invalid self"

text \<open>
  \<open>_update_pcapdata\<close>: the first capture device whose name ends with the identifier is
  recorded; with none, the interface becomes invalid. An interface that is already invalid
  is left alone.
\<close>

definition update_pcapdata :: "os_env \<Rightarrow> network_interface \<Rightarrow> network_interface" where
  "update_pcapdata os self =
     (if is_invalid self then self
      else (case find (\<lambda>i. suffix (guid self) i) (get_if_list os) of
              Some i \<Rightarrow> self\<lparr>pcap_name := Some i\<rparr>
            | None \<Rightarrow> self\<lparr>invalid := True\<rparr>))"

text \<open>
  \<open>update\<close>. The attribute \<open>self.data\<close> is stored and never read again; it is left out.
  \<open>not self.ip\<close> holds for \<open>None\<close> and for the empty string.
\<close>

definition update :: "config \<Rightarrow> os_env \<Rightarrow> network_interface \<Rightarrow> if_data \<Rightarrow> network_interface" where
  "update conf os self data =
     (let self1 = self\<lparr>name := (if d_netid data = Some (LOOPBACK_NAME conf)
                                  then LOOPBACK_NAME conf else d_name data),
                        description := d_description data,
                        win_index := d_win_index data,
                        guid := d_guid data,
                        mac := d_mac data,
                        ipv4_metric := d_ipv4_metric data,
                        ipv6_metric := d_ipv6_metric data,
                        ips := d_ips data\<rparr>;
          self2 = (case d_invalid data of
                     Some b \<Rightarrow> self1\<lparr>invalid := b\<rparr>
                   | None \<Rightarrow> self1);
          self3 = update_pcapdata os self2
      in if name self3 = LOOPBACK_NAME conf \<and> use_npcap conf then
           self3\<lparr>mac := ''00:00:00:00:00:00'', ip := Some ''127.0.0.1''\<rparr>
         else
           (let self4 = (case find (\<lambda>x. CHR '':'' \<notin> set x) (ips self3) of
                           Some x \<Rightarrow> self3\<lparr>ip := Some x\<rparr>
                         | None \<Rightarrow> self3)
            in if (ip self4 = None \<or> ip self4 = Some '''') \<and> name self4 = LOOPBACK_NAME conf
               then self4\<lparr>ip := Some ''127.0.0.1''\<rparr>
               else self4))"

text \<open>
  The object \<open>__init__\<close> leaves behind before \<open>update\<close> runs. The attributes that
  \<open>update\<close> assigns before any use (\<open>name\<close>, \<open>mac\<close>, \<open>description\<close>, the metrics,
  \<open>ips\<close>, \<open>win_index\<close>, \<open>guid\<close>) carry placeholders.
\<close>

definition blank_interface :: network_interface where
  "blank_interface =
     \<lparr> name = '''', ip = None, mac = '''', pcap_name = None, description = '''',
       invalid = False, raw80211 = None, cache_mode = None, ipv4_metric = 0,
       ipv6_metric = 0, ips = [], win_index = 0, guid = '''' \<rparr>"

text \<open>\<open>NetworkInterface(data)\<close> with a dictionary.\<close>

definition NetworkInterface :: "config \<Rightarrow> os_env \<Rightarrow> if_data \<Rightarrow> network_interface" where
  "NetworkInterface conf os data = update conf os blank_interface data"

section \<open>Wireless Capability Controller\<close>

text \<open>
  A method that may raise and that changes the object returns the result together with the
  object (and the process state, when it runs a command): an assignment made before a
  \<open>raise\<close> stays made.
\<close>

definition check_npcap_requirement ::
  "config \<Rightarrow> os_env \<Rightarrow> network_interface \<Rightarrow> (py_error + unit) \<times> network_interface" where
  "check_npcap_requirement conf os self =
     (if \<not> use_npcap conf then (Inl OSError, self)
      else
        (let self1 = (if raw80211 self = None then
                        self\<lparr>raw80211 :=
                          Some (case Dot11Adapters os of
                                  None \<Rightarrow> False
                                | Some dot11adapters \<Rightarrow>
                                    py_in (py_lower (guid self)) (py_lower dot11adapters))\<rparr>
                      else self)
         in if raw80211 self1 \<noteq> Some True then (Inl Scapy_Exception, self1)
            else (Inr (), self1)))"

text \<open>
  \<open>_exec_cmd\<close>: the command is run and joins the history; a non-zero return code gives
  the sentinel \<open>b"error"\<close>.
\<close>

definition exec_cmd :: "os_env \<Rightarrow> world \<Rightarrow> string \<Rightarrow> string \<times> world" where
  "exec_cmd os w command =
     (let (returncode, res) = Popen os (history w) command;
          w1 = w\<lparr>history := history w @ [command]\<rparr>
      in if returncode \<noteq> 0 then (''error'', w1) else (res, w1))"

definition encapsulate_admin :: "string \<Rightarrow> string" where
  "encapsulate_admin cmd =
     ''powershell /command '' @ [CHR 0x22] @ ''Start-Process cmd '' @
     ''-windowstyle hidden -Wait -PassThru -Verb RunAs '' @
     ''-ArgumentList '' @ [CHR 0x27] @ ''/c '' @ cmd @ [CHR 0x27, CHR 0x22]"

definition WlanHelper :: "config \<Rightarrow> string" where
  "WlanHelper conf = NPCAP_PATH conf @ [CHR 0x5C] @ ''WlanHelper.exe''"

text \<open>
  \<open>_npcap_set\<close> and \<open>_npcap_get\<close>. \<open>not _exec_cmd(...)\<close> is true exactly for an empty
  output. The call that resets the window title is left out.
\<close>

definition npcap_set ::
  "config \<Rightarrow> os_env \<Rightarrow> world \<Rightarrow> network_interface \<Rightarrow> string \<Rightarrow> string \<Rightarrow> bool \<times> world" where
  "npcap_set conf os w self key val =
     (let (out, w1) = exec_cmd os w (encapsulate_admin
            (py_join '' '' [WlanHelper conf, slice_1_m1 (guid self), key, val]))
      in (out = [], w1))"

definition npcap_get ::
  "config \<Rightarrow> os_env \<Rightarrow> world \<Rightarrow> network_interface \<Rightarrow> string \<Rightarrow> string \<times> world" where
  "npcap_get conf os w self key =
     (let (data, w1) = exec_cmd os w
            (py_join '' '' [WlanHelper conf, slice_1_m1 (guid self), key])
      in (py_strip data, w1))"

definition mode ::
  "config \<Rightarrow> os_env \<Rightarrow> world \<Rightarrow> network_interface \<Rightarrow>
     (py_error + string) \<times> network_interface \<times> world" where
  "mode conf os w self =
     (case check_npcap_requirement conf os self of
        (Inl e, self1) \<Rightarrow> (Inl e, self1, w)
      | (Inr _, self1) \<Rightarrow>
          (let (data, w1) = npcap_get conf os w self1 ''mode'' in (Inr data, self1, w1)))"

text \<open>
  \<open>ismonitor\<close>: only \<open>Scapy_Exception\<close> is caught; any other exception of \<open>mode\<close>
  leaves the method.
\<close>

definition ismonitor ::
  "config \<Rightarrow> os_env \<Rightarrow> world \<Rightarrow> network_interface \<Rightarrow>
     (py_error + bool) \<times> network_interface \<times> world" where
  "ismonitor conf os w self =
     (case cache_mode self of
        Some b \<Rightarrow> (Inr b, self, w)
      | None \<Rightarrow>
          (case mode conf os w self of
             (Inr m, self1, w1) \<Rightarrow>
               (let res = bytes_eq_str (PY2 conf) m ''monitor''
                in (Inr res, self1\<lparr>cache_mode := Some res\<rparr>, w1))
           | (Inl e, self1, w1) \<Rightarrow>
               if e = Scapy_Exception then (Inr False, self1, w1)
               else (Inl e, self1, w1)))"

text \<open>The argument of \<open>setmode\<close>: a small integer or the mode's name.\<close>

datatype mode_arg = ModeInt int | ModeStr string

definition modes_get :: "int \<Rightarrow> string" where
  "modes_get i =
     (if i = 0 then ''managed''
      else if i = 1 then ''monitor''
      else if i = 2 then ''master''
      else if i = 3 then ''wfd_device''
      else if i = 4 then ''wfd_owner''
      else if i = 5 then ''wfd_client''
      else ''unknown'')"

definition setmode ::
  "config \<Rightarrow> os_env \<Rightarrow> world \<Rightarrow> network_interface \<Rightarrow> mode_arg \<Rightarrow>
     (py_error + bool) \<times> network_interface \<times> world" where
  "setmode conf os w self md =
     (case check_npcap_requirement conf os self of
        (Inl e, self1) \<Rightarrow> (Inl e, self1, w)
      | (Inr _, self1) \<Rightarrow>
          (let m = (case md of ModeInt i \<Rightarrow> modes_get i | ModeStr s \<Rightarrow> s);
               (res, w1) = npcap_set conf os w self1 ''mode'' m
           in (Inr res, self1, w1)))"

definition setmonitor ::
  "config \<Rightarrow> os_env \<Rightarrow> world \<Rightarrow> network_interface \<Rightarrow> bool \<Rightarrow>
     (py_error + bool) \<times> network_interface \<times> world" where
  "setmonitor conf os w self enable =
     (case (if enable then
              (case setmode conf os w self (ModeStr ''monitor'') of
                 (Inl e, self1, w1) \<Rightarrow> (Inl e, self1, w1)
               | (Inr res, self1, w1) \<Rightarrow> (Inr res, self1\<lparr>cache_mode := Some res\<rparr>, w1))
            else
              (case setmode conf os w self (ModeStr ''managed'') of
                 (Inl e, self1, w1) \<Rightarrow> (Inl e, self1, w1)
               | (Inr res, self1, w1) \<Rightarrow>
                   (Inr res, self1\<lparr>cache_mode := Some (\<not> res)\<rparr>, w1))) of
        (Inl e, self2, w2) \<Rightarrow> (Inl e, self2, w2)
      | (Inr res, self2, w2) \<Rightarrow>
          (Inr res, self2,
           if \<not> res then
             w2\<lparr>logs := logs w2 @ [RuntimeError ''Npcap WlanHelper returned with an error code !'']\<rparr>
           else w2))"

section \<open>Interface Registry\<close>

definition pcap_service_name :: "config \<Rightarrow> string" where
  "pcap_service_name conf = (if use_npcap conf then ''npcap'' else ''npf'')"

definition pcap_service_status :: "config \<Rightarrow> os_env \<Rightarrow> world \<Rightarrow> bool \<times> world" where
  "pcap_service_status conf os w =
     (let (outp, w1) = exec_cmd os w
            (''sc query '' @ pcap_service_name conf @ '' | findstr STATE'')
      in (py_in ''running'' (py_lower outp), w1))"

text \<open>\<open>not conf.prog.powershell\<close> holds for \<open>None\<close> and for the empty path.\<close>

definition pcap_service_control ::
  "config \<Rightarrow> os_env \<Rightarrow> world \<Rightarrow> string \<Rightarrow> bool \<Rightarrow> bool \<times> world" where
  "pcap_service_control conf os w action askadmin =
     (if powershell conf = None \<or> powershell conf = Some '''' then (False, w)
      else
        (let command = action @ '' '' @ pcap_service_name conf;
             (stdout, w1) = exec_cmd os w
               (if askadmin then encapsulate_admin command else command)
         in (\<not> py_in ''error'' (py_lower stdout), w1)))"

definition pcap_service_start :: "config \<Rightarrow> os_env \<Rightarrow> world \<Rightarrow> bool \<Rightarrow> bool \<times> world" where
  "pcap_service_start conf os w askadmin = pcap_service_control conf os w ''sc start'' askadmin"

text \<open>\<open>dev_from_name\<close>, \<open>dev_from_pcapname\<close> and \<open>dev_from_index\<close>.\<close>

definition dev_from_name :: "world \<Rightarrow> string \<Rightarrow> py_error + network_interface" where
  "dev_from_name w n =
     (case find (\<lambda>iface. name iface = n \<or> description iface = n)
             (itervalues (IFACES_data w)) of
        Some iface \<Rightarrow> Inr iface
      | None \<Rightarrow> Inl ValueError)"

definition dev_from_pcapname :: "world \<Rightarrow> string \<Rightarrow> py_error + network_interface" where
  "dev_from_pcapname w pn =
     (case find (\<lambda>iface. pcap_name iface = Some pn) (itervalues (IFACES_data w)) of
        Some iface \<Rightarrow> Inr iface
      | None \<Rightarrow> Inl ValueError)"

text \<open>
  The index is an integer already (\<open>int(if_index)\<close> is the identity on one), and
  \<open>str(if_index) == "1"\<close> holds for the integer 1 only.
\<close>

definition dev_from_index :: "world \<Rightarrow> int \<Rightarrow> py_error + network_interface" where
  "dev_from_index w if_index =
     (case find (\<lambda>iface. win_index iface = if_index) (itervalues (IFACES_data w)) of
        Some iface \<Rightarrow> Inr iface
      | None \<Rightarrow>
          if if_index = 1 then
            (case LOOPBACK_INTERFACE w of
               Some lo \<Rightarrow> Inr lo
             | None \<Rightarrow> Inl ValueError)
          else Inl ValueError)"

text \<open>
  The first loop of \<open>load\<close>: every normalized adapter becomes an interface stored under
  its identifier. The dictionaries of \<open>get_windows_if_list\<close> have every key, so the
  \<open>KeyError\<close> handler is never entered.
\<close>

fun load_interfaces ::
  "config \<Rightarrow> os_env \<Rightarrow> (string \<times> network_interface) list \<Rightarrow> if_data list \<Rightarrow>
     (string \<times> network_interface) list" where
  "load_interfaces conf os d [] = d"
| "load_interfaces conf os d (i # rest) =
     (let interface = NetworkInterface conf os i
      in load_interfaces conf os (dict_set d (guid interface) interface) rest)"

text \<open>\<open>_ask_user\<close>, local to \<open>load\<close>: lines are read until one is an answer.\<close>

fun ask_user_loop :: "string list \<Rightarrow> (py_error + bool) \<times> string list" where
  "ask_user_loop [] = (Inl EOFError, [])"
| "ask_user_loop (line # rest) =
     (let confir = py_strip (py_lower line)
      in if confir \<in> set [''yes'', ''y'', ''''] then (Inr True, rest)
         else if confir \<in> set [''no'', ''n''] then (Inr False, rest)
         else ask_user_loop rest)"

definition ask_user :: "config \<Rightarrow> world \<Rightarrow> (py_error + bool) \<times> world" where
  "ask_user conf w =
     (if \<not> interactive conf then (Inr False, w)
      else (let (r, rest) = ask_user_loop (stdin w) in (r, w\<lparr>stdin := rest\<rparr>)))"

text \<open>
  The last loop of \<open>load\<close>, over \<open>conf.cache_iflist\<close>: an identifier that is not a key
  of the registry yet gets a synthesized interface.
\<close>

definition npf_prefix :: string where
  "npf_prefix = [CHR 0x5C] @ ''DEVICE'' @ [CHR 0x5C] @ ''NPF_''"

definition dummy_data :: "string \<Rightarrow> string \<Rightarrow> string list \<Rightarrow> if_data" where
  "dummy_data n g l =
     \<lparr> d_name = n,
       d_description = ''[Unknown] '' @ n,
       d_win_index = - 1,
       d_guid = g,
       d_mac = ''00:00:00:00:00:00'',
       d_ipv4_metric = 0,
       d_ipv6_metric = 0,
       d_ips = l,
       d_netid = None,
       d_invalid = Some False \<rparr>"

fun load_cache_iflist ::
  "config \<Rightarrow> os_env \<Rightarrow> (string \<times> network_interface) list \<Rightarrow>
     (string \<times> string \<times> string list) list \<Rightarrow> (string \<times> network_interface) list" where
  "load_cache_iflist conf os d [] = d"
| "load_cache_iflist conf os d ((n, g, l) # rest) =
     (let g1 = py_replace npf_prefix '''' (py_upper g)
      in if \<not> dict_has d g1 then
           load_cache_iflist conf os
             (dict_set d g1 (NetworkInterface conf os (dummy_data n g1 l))) rest
         else load_cache_iflist conf os d rest)"

definition merge_cache :: "config \<Rightarrow> os_env \<Rightarrow> world \<Rightarrow> world" where
  "merge_cache conf os w =
     w\<lparr>IFACES_data := load_cache_iflist conf os (IFACES_data w) (cache_iflist conf)\<rparr>"

text \<open>The \<open>else\<close> branch of \<open>load\<close> that replaces \<open>LOOPBACK_INTERFACE\<close>.\<close>

definition replace_loopback :: "config \<Rightarrow> world \<Rightarrow> world" where
  "replace_loopback conf w =
     (case dev_from_name w (LOOPBACK_NAME conf) of
        Inr iface \<Rightarrow> w\<lparr>LOOPBACK_INTERFACE := Some iface\<rparr>
      | Inl e \<Rightarrow> w)"

definition warn :: "string \<Rightarrow> py_error list \<Rightarrow> world \<Rightarrow> world" where
  "warn msg args w = w\<lparr>logs := logs w @ [Warning msg args]\<rparr>"

definition load_advice :: string where
  "load_advice =
     ''You probably won't be able to send packets. '' @
     ''Deactivating unneeded interfaces and restarting Scapy might help. '' @
     ''Check your winpcap and powershell installation, and access rights.''"

text \<open>
  \<open>load\<close>. It calls itself once the capture service has been started, and never twice:
  \<open>restarted_adapter\<close> is set before the call and closes that branch.
\<close>

function load :: "config \<Rightarrow> os_env \<Rightarrow> world \<Rightarrow> (py_error + unit) \<times> world" where
  "load conf os w =
     (if \<not> os_access conf then (Inr (), w)
      else
        (case get_windows_if_list conf os False of
           Inl e \<Rightarrow> (Inl e, w)
         | Inr l \<Rightarrow>
             (let w1 = w\<lparr>IFACES_data := load_interfaces conf os (IFACES_data w) l\<rparr>
              in if IFACES_data w1 = [] \<and> use_winpcapy conf then
                   (let dw = pcap_service_status conf os w1
                    in if \<not> fst dw \<and> restarted_adapter (snd dw) \<noteq> Some True then
                         (let w3 = warn ''Scapy has detected that your pcap service is not running !''
                                     [] (snd dw);
                              aw = (if \<not> interactive conf then (Inr True, w3)
                                    else ask_user conf w3)
                          in case fst aw of
                               Inl e \<Rightarrow> (Inl e, snd aw)
                             | Inr go \<Rightarrow>
                                 if go then
                                   (let sw = pcap_service_start conf os (snd aw) (interactive conf);
                                        w5 = (snd sw)\<lparr>restarted_adapter := Some True\<rparr>
                                    in if fst sw then
                                         load conf os
                                           (w5\<lparr>logs := logs w5 @ [LoadingInfo ''Pcap service started !'']\<rparr>)
                                       else
                                         (Inr (), merge_cache conf os
                                            (warn (''Could not start the pcap service ! '' @ load_advice)
                                               [] w5)))
                                 else
                                   (Inr (), merge_cache conf os
                                      (warn (''Could not start the pcap service ! '' @ load_advice)
                                         [] (snd aw))))
                       else
                         (Inr (), merge_cache conf os
                            (warn (''No match between your pcap and windows network interfaces found. ''
                                   @ load_advice) [] (snd dw))))
                 else (Inr (), merge_cache conf os (replace_loopback conf w1)))))"
  by pat_completeness auto

termination load
  by (relation "measure (\<lambda>(conf, os, w). if restarted_adapter w = Some True then 0 else 1)")
     (auto simp add: pcap_service_status_def exec_cmd_def Let_def split: prod.splits if_splits)

declare load.simps [simp del]

text \<open>
  The argument of the module-level \<open>pcapname\<close>: a \<open>NetworkInterface\<close> object or a
  logical name.
\<close>

datatype dev_arg = Iface network_interface | Name string

definition pcapname :: "config \<Rightarrow> world \<Rightarrow> dev_arg \<Rightarrow> py_error + string option" where
  "pcapname conf w dev =
     (case dev of
        Iface i \<Rightarrow> if is_invalid i then Inr None else Inr (pcap_name i)
      | Name n \<Rightarrow>
          (case dev_from_name w n of
             Inr i \<Rightarrow> Inr (pcap_name i)
           | Inl e \<Rightarrow>
               if e = ValueError then (if use_pcap conf then Inr None else Inl e)
               else Inl e))"

section \<open>Route Table Builder\<close>

text \<open>
  A route of the IPv4 table, \<open>(dest, netmask, nexthop, iface, ip, metric)\<close>, and one of
  the IPv6 table, \<open>(dpref, dp, nh, iface, cset, metric)\<close>.
\<close>

datatype route =
    Route int int string network_interface "string option" int
  | Route6 string int string network_interface "string list" int

text \<open>Components 3 and 5 of either tuple, and the components of an IPv6 route.\<close>

fun route_iface :: "route \<Rightarrow> network_interface" where
  "route_iface (Route dst msk nh i src m) = i"
| "route_iface (Route6 dpref dp nh i cset m) = i"

fun route_metric :: "route \<Rightarrow> int" where
  "route_metric (Route dst msk nh i src m) = m"
| "route_metric (Route6 dpref dp nh i cset m) = m"

fun is_route6 :: "route \<Rightarrow> bool" where
  "is_route6 (Route dst msk nh i src m) = False"
| "is_route6 (Route6 dpref dp nh i cset m) = True"

fun route6_dpref :: "route \<Rightarrow> string" where
  "route6_dpref (Route dst msk nh i src m) = ''''"
| "route6_dpref (Route6 dpref dp nh i cset m) = dpref"

fun route6_dp :: "route \<Rightarrow> int" where
  "route6_dp (Route dst msk nh i src m) = 0"
| "route6_dp (Route6 dpref dp nh i cset m) = dp"

fun route6_cset :: "route \<Rightarrow> string list" where
  "route6_cset (Route dst msk nh i src m) = []"
| "route6_cset (Route6 dpref dp nh i cset m) = cset"

text \<open>
  \<open>get_ips\<close>: one entry per registry object, in iteration order. The dictionary it
  builds is keyed by the objects themselves, which are pairwise distinct.
\<close>

definition get_ips :: "world \<Rightarrow> bool \<Rightarrow> (network_interface \<times> string list) list" where
  "get_ips w v6 =
     map (\<lambda>iface. (iface,
            filter (\<lambda>a. (v6 \<and> CHR '':'' \<in> set a) \<or> (\<not> v6 \<and> CHR '':'' \<notin> set a))
              (ips iface)))
       (itervalues (IFACES_data w))"

definition in6_getifaddr ::
  "config \<Rightarrow> os_env \<Rightarrow> world \<Rightarrow> (string \<times> int \<times> network_interface) list" where
  "in6_getifaddr conf os w =
     concat (map (\<lambda>(iface, l). map (\<lambda>a. (a, in6_getscope os a, iface)) l) (get_ips w True))
     @ (case LOOPBACK_INTERFACE w of
          Some lo \<Rightarrow> if use_npcap conf then [(''::1'', 0, lo)] else []
        | None \<Rightarrow> [])"

text \<open>
  \<open>_append_route6\<close>. The comparison \<open>x[2] == iface\<close> of two objects is the equality of
  the two records.
\<close>

definition append_route6 ::
  "config \<Rightarrow> os_env \<Rightarrow> route list \<Rightarrow> string \<Rightarrow> int \<Rightarrow> string \<Rightarrow> network_interface \<Rightarrow>
     (string \<times> int \<times> network_interface) list \<Rightarrow> int \<Rightarrow> route list" where
  "append_route6 conf os routes dpref dp nh iface lifaddr metric =
     (if name iface = LOOPBACK_NAME conf then
        (if dpref = ''::'' then routes
         else routes @ [Route6 dpref dp nh iface [''::1''] metric])
      else
        (let devaddrs = filter (\<lambda>x. snd (snd x) = iface) lifaddr;
             cset = construct_source_candidate_set os dpref dp devaddrs
         in if cset = [] then routes
            else routes @ [Route6 dpref dp nh iface cset metric]))"

text \<open>\<open>struct.pack("<I", obj)\<close>: the four bytes of a 32-bit value, lowest first.\<close>

definition pack_le32 :: "32 word \<Rightarrow> byte list" where
  "pack_le32 v = [ucast v, ucast (drop_bit 8 v), ucast (drop_bit 16 v), ucast (drop_bit 24 v)]"

text \<open>
  The loop of \<open>_read_routes_c_v1\<close>. A \<open>ValueError\<close> of \<open>dev_from_index\<close> skips the
  row, as does the primary address \<open>0.0.0.0\<close>.
\<close>

fun read_routes_c_v1_loop ::
  "os_env \<Rightarrow> world \<Rightarrow> route list \<Rightarrow> forward_row list \<Rightarrow> py_error + route list" where
  "read_routes_c_v1_loop os w routes [] = Inr routes"
| "read_routes_c_v1_loop os w routes (row # rest) =
     (case inet_ntop os AF_INET (pack_le32 (ForwardNextHop row)) of
        Inl e \<Rightarrow> Inl e
      | Inr nexthop \<Rightarrow>
          (case dev_from_index w (ForwardIfIndex row) of
             Inl e \<Rightarrow>
               if e = ValueError then read_routes_c_v1_loop os w routes rest else Inl e
           | Inr iface \<Rightarrow>
               if ip iface = Some ''0.0.0.0'' then read_routes_c_v1_loop os w routes rest
               else
                 (let metric = ForwardMetric1 row + ipv4_metric iface
                  in read_routes_c_v1_loop os w
                       (routes @ [Route (ForwardDest row) (ForwardMask row) nexthop iface
                                    (ip iface) metric])
                       rest)))"

definition read_routes_c_v1 :: "os_env \<Rightarrow> world \<Rightarrow> py_error + route list" where
  "read_routes_c_v1 os w =
     (case GetIpForwardTable os of
        Inl e \<Rightarrow> Inl e
      | Inr table \<Rightarrow> read_routes_c_v1_loop os w [] table)"

text \<open>
  \<open>_extract_ip_netmask\<close>, local to \<open>_read_routes_c\<close>: the prefix length is what is left
  of the address length once the trailing zero bytes are taken off.
\<close>

definition extract_ip_netmask :: "os_env \<Rightarrow> bool \<Rightarrow> sockaddr_inet \<Rightarrow> py_error + string \<times> int" where
  "extract_ip_netmask os ipv6 obj =
     (let a = (if ipv6 then Ipv6_sin6_addr obj else Ipv4_sin_addr obj);
          netmask = ((if ipv6 then 16 else 4)
                     - (int (length a) - int (length (rstrip_zero a)))) * 8
      in case inet_ntop os (if ipv6 then AF_INET6 else AF_INET) a of
           Inl e \<Rightarrow> Inl e
         | Inr s \<Rightarrow> Inr (s, netmask))"

fun read_routes_c_loop ::
  "config \<Rightarrow> os_env \<Rightarrow> world \<Rightarrow> bool \<Rightarrow> (string \<times> int \<times> network_interface) list \<Rightarrow>
     route list \<Rightarrow> forward_row2 list \<Rightarrow> py_error + route list" where
  "read_routes_c_loop conf os w ipv6 lifaddr routes [] = Inr routes"
| "read_routes_c_loop conf os w ipv6 lifaddr routes (row # rest) =
     (case extract_ip_netmask os ipv6 (DestinationPrefix_Prefix row) of
        Inl e \<Rightarrow> Inl e
      | Inr (dest, netmask) \<Rightarrow>
          (case extract_ip_netmask os ipv6 (NextHop row) of
             Inl e \<Rightarrow> Inl e
           | Inr (nexthop, nm) \<Rightarrow>
               (case dev_from_index w (InterfaceIndex row) of
                  Inl e \<Rightarrow>
                    if e = ValueError
                    then read_routes_c_loop conf os w ipv6 lifaddr routes rest
                    else Inl e
                | Inr iface \<Rightarrow>
                    if ip iface = Some ''0.0.0.0''
                    then read_routes_c_loop conf os w ipv6 lifaddr routes rest
                    else
                      (let metric = Metric row
                             + (if ipv6 then ipv6_metric iface else ipv4_metric iface)
                       in if ipv6 then
                            read_routes_c_loop conf os w ipv6 lifaddr
                              (append_route6 conf os routes dest netmask nexthop iface
                                 lifaddr metric)
                              rest
                          else
                            (case atol os dest of
                               Inl e \<Rightarrow> Inl e
                             | Inr d \<Rightarrow>
                                 read_routes_c_loop conf os w ipv6 lifaddr
                                   (routes @ [Route d (itom os netmask) nexthop iface
                                                (ip iface) metric])
                                   rest)))))"

text \<open>
  \<open>_read_routes_c\<close>: the local addresses are gathered first (for IPv6 only), then the
  table is read.
\<close>

definition read_routes_c :: "config \<Rightarrow> os_env \<Rightarrow> world \<Rightarrow> bool \<Rightarrow> py_error + route list" where
  "read_routes_c conf os w ipv6 =
     (let lifaddr = (if ipv6 then in6_getifaddr conf os w else [])
      in case GetIpForwardTable2 os (if ipv6 then AF_INET6 else AF_INET) of
           Inl e \<Rightarrow> Inl e
         | Inr table \<Rightarrow> read_routes_c_loop conf os w ipv6 lifaddr [] table)"

text \<open>
  \<open>read_routes\<close> and \<open>read_routes6\<close>: the result is the table, with the process state
  after the warnings.
\<close>

definition no_default_routes_msg :: string where
  "no_default_routes_msg =
     ''No default IPv4 routes found. Your Windows release may no be supported '' @
     ''and you have to enter your routes manually''"

definition read_routes :: "config \<Rightarrow> os_env \<Rightarrow> world \<Rightarrow> (py_error + route list) \<times> world" where
  "read_routes conf os w =
     (case (if WINDOWS_XP conf then read_routes_c_v1 os w
            else read_routes_c conf os w False) of
        Inl e \<Rightarrow> (Inr [], warn ''Error building scapy IPv4 routing table : %s'' [e] w)
      | Inr routes \<Rightarrow>
          (Inr routes, if routes = [] then warn no_default_routes_msg [] w else w))"

definition read_routes6 :: "config \<Rightarrow> os_env \<Rightarrow> world \<Rightarrow> (py_error + route list) \<times> world" where
  "read_routes6 conf os w =
     (if WINDOWS_XP conf then (Inr [], w)
      else
        (case read_routes_c conf os w True of
           Inl e \<Rightarrow> (Inr [], warn ''Error building scapy IPv6 routing table : %s'' [e] w)
         | Inr routes6 \<Rightarrow> (Inr routes6, w)))"

section \<open>Concrete inputs\<close>

text \<open>
  An Ethernet adapter as \<open>GetAdaptersAddresses\<close> reports it, with a chosen
  physical-address length; a configuration with or without Npcap; a registry entry with a
  chosen identifier and index; a process state with a chosen registry and loopback
  interface.
\<close>

definition ex_adapter :: "int \<Rightarrow> raw_adapter" where
  "ex_adapter n =
     \<lparr> friendly_name = ''Ethernet'', interface_index = 5, x_description = ''Intel NIC'',
       adapter_name = ''{A}'', physical_address_length = n,
       physical_address = [0x00, 0x1B, 0x2C, 0xAB, 0xCD, 0xEF, 0x00, 0x00],
       x_ipv4_metric = 10, x_ipv6_metric = 20, first_unicast_address = None,
       first_anycast_address = None, first_multicast_address = None \<rparr>"

definition ex_conf :: "bool \<Rightarrow> config" where
  "ex_conf npcap =
     \<lparr> use_npcap = npcap, use_pcap = False, use_winpcapy = True, interactive = False,
       os_access = True, powershell = Some ''powershell.exe'', cache_iflist = [],
       WINDOWS_XP = False, PY2 = True, LOOPBACK_NAME = ''Npcap Loopback Adapter'',
       NPCAP_PATH = ''C:/Npcap'' \<rparr>"

definition ex_iface :: "string \<Rightarrow> int \<Rightarrow> network_interface" where
  "ex_iface g n =
     \<lparr> name = ''Ethernet '' @ g, ip = Some ''192.168.1.50'', mac = ''00:1b:2c:ab:cd:ef'',
       pcap_name = Some (''NPF_'' @ g), description = ''Intel NIC '' @ g, invalid = False,
       raw80211 = None, cache_mode = None, ipv4_metric = 10, ipv6_metric = 20,
       ips = [''192.168.1.50'', ''fe80::1''], win_index = n, guid = g \<rparr>"

definition ex_world :: "(string \<times> network_interface) list \<Rightarrow> network_interface option \<Rightarrow> world" where
  "ex_world d lo =
     \<lparr> IFACES_data = d, restarted_adapter = None, LOOPBACK_INTERFACE = lo, logs = [],
       history = [], stdin = [] \<rparr>"

definition ex_os :: "string list \<Rightarrow> (string list \<Rightarrow> string \<Rightarrow> int \<times> string) \<Rightarrow> os_env" where
  "ex_os devices popen =
     \<lparr> GetAdaptersAddresses = Inr [ex_adapter 6],
       GetIpForwardTable = Inr [],
       GetIpForwardTable2 = (\<lambda>af. Inr []),
       get_if_list = devices,
       inet_ntop = (\<lambda>af b. Inr ''''),
       atol = (\<lambda>s. Inr 0),
       itom = (\<lambda>n. n),
       in6_getscope = (\<lambda>a. 0),
       construct_source_candidate_set = (\<lambda>dpref dp addrs. map fst addrs),
       Dot11Adapters = Some ''{A}'',
       Popen = popen \<rparr>"

definition ex_loopback_data :: if_data where
  "ex_loopback_data =
     \<lparr> d_name = ''Npcap Loopback Adapter'', d_description = ''Loopback'',
       d_win_index = 1, d_guid = ''{L}'', d_mac = ''02:00:4c:4f:4f:50'',
       d_ipv4_metric = 75, d_ipv6_metric = 75, d_ips = [''fe80::2'', ''10.0.0.1''],
       d_netid = None, d_invalid = None \<rparr>"

section \<open>Auxiliary definitions\<close>

text \<open>
  An auxiliary stage for the proofs about \<open>update\<close>: the object after the assignments
  and the call of \<open>_update_pcapdata\<close>, before the primary address is chosen.
\<close>

definition update_stage :: "config \<Rightarrow> os_env \<Rightarrow> network_interface \<Rightarrow> if_data \<Rightarrow> network_interface" where
  "update_stage conf os self data =
     update_pcapdata os
       (case d_invalid data of
          Some b \<Rightarrow>
            self\<lparr>name := (if d_netid data = Some (LOOPBACK_NAME conf)
                           then LOOPBACK_NAME conf else d_name data),
                 description := d_description data,
                 win_index := d_win_index data,
                 guid := d_guid data,
                 mac := d_mac data,
                 ipv4_metric := d_ipv4_metric data,
                 ipv6_metric := d_ipv6_metric data,
                 ips := d_ips data, invalid := b\<rparr>
        | None \<Rightarrow>
            self\<lparr>name := (if d_netid data = Some (LOOPBACK_NAME conf)
                           then LOOPBACK_NAME conf else d_name data),
                 description := d_description data,
                 win_index := d_win_index data,
                 guid := d_guid data,
                 mac := d_mac data,
                 ipv4_metric := d_ipv4_metric data,
                 ipv6_metric := d_ipv6_metric data,
                 ips := d_ips data\<rparr>)"

text \<open>
  The command line \<open>setmode\<close> hands to \<open>_npcap_set\<close> for a mode name, wrapped for the
  elevated shell.
\<close>

definition set_mode_command :: "config \<Rightarrow> network_interface \<Rightarrow> string \<Rightarrow> string" where
  "set_mode_command conf self m =
     encapsulate_admin (py_join '' '' [WlanHelper conf, slice_1_m1 (guid self), ''mode'', m])"

text \<open>
  A wireless registry entry with a chosen capability flag (\<open>raw80211\<close>) and a chosen
  monitor-mode cache.
\<close>

definition ex_wifi :: "bool option \<Rightarrow> bool option \<Rightarrow> network_interface" where
  "ex_wifi capable cached = (ex_iface ''{A}'' 5)\<lparr>raw80211 := capable, cache_mode := cached\<rparr>"

text \<open>
  What the loop of \<open>_read_routes_c\<close> guarantees for a route it adds from a row: used to
  state the loop invariant.
\<close>

definition route_from_row ::
  "config \<Rightarrow> os_env \<Rightarrow> world \<Rightarrow> bool \<Rightarrow> (string \<times> int \<times> network_interface) list \<Rightarrow>
     forward_row2 \<Rightarrow> route \<Rightarrow> bool" where
  "route_from_row conf os w ipv6 lifaddr row r =
     (dev_from_index w (InterfaceIndex row) = Inr (route_iface r) \<and>
      route_metric r = Metric row
        + (if ipv6 then ipv6_metric (route_iface r) else ipv4_metric (route_iface r)) \<and>
      is_route6 r = ipv6 \<and>
      (ipv6 \<longrightarrow>
         (if name (route_iface r) = LOOPBACK_NAME conf
          then route6_dpref r \<noteq> ''::'' \<and> route6_cset r = [''::1'']
          else route6_cset r \<noteq> [] \<and>
               route6_cset r =
                 construct_source_candidate_set os (route6_dpref r) (route6_dp r)
                   (filter (\<lambda>x. snd (snd x) = route_iface r) lifaddr))))"

text \<open>
  Inputs for the route tables: two IPv6 addresses as raw bytes, a stand-in for
  \<open>inet_ntop\<close> that tells the zero address from the others, collaborators with chosen
  forward tables and one whose modern table call fails, a legacy row and a modern row with
  raw metric 256, a loopback interface, an interface without IPv6 address, and a process
  state holding them.
\<close>

definition zero16 :: "byte list" where
  "zero16 = [0, 0, 0, 0, 0, 0, 0, 0, 0, 0, 0, 0, 0, 0, 0, 0]"

definition fe80 :: "byte list" where
  "fe80 = [0xFE, 0x80, 0, 0, 0, 0, 0, 0, 0, 0, 0, 0, 0, 0, 0, 0]"

definition ex_inet_ntop :: "int \<Rightarrow> byte list \<Rightarrow> py_error + string" where
  "ex_inet_ntop af b =
     Inr (if af = AF_INET6 then (if b = zero16 then ''::'' else ''fe80::'')
          else ''192.168.1.1'')"

definition ex_route_os :: "forward_row list \<Rightarrow> forward_row2 list \<Rightarrow> os_env" where
  "ex_route_os t1 t2 =
     (ex_os [] (\<lambda>h c. (0, '''')))
       \<lparr>GetIpForwardTable := Inr t1, GetIpForwardTable2 := (\<lambda>af. Inr t2),
        inet_ntop := ex_inet_ntop\<rparr>"

definition ex_failing_os :: os_env where
  "ex_failing_os =
     (ex_os [] (\<lambda>h c. (0, '''')))
       \<lparr>GetIpForwardTable2 := (\<lambda>af. Inl (OtherError ''GetIpForwardTable2''))\<rparr>"

definition ex_row :: forward_row where
  "ex_row = \<lparr> ForwardIfIndex = 5, ForwardDest = 0, ForwardMask = 0,
              ForwardNextHop = 0x0101A8C0, ForwardMetric1 = 256 \<rparr>"

definition ex_row2 :: "int \<Rightarrow> byte list \<Rightarrow> forward_row2" where
  "ex_row2 idx pfx =
     \<lparr> InterfaceIndex = idx,
       DestinationPrefix_Prefix =
         \<lparr> si_family = AF_INET6, Ipv4_sin_addr = [0, 0, 0, 0], Ipv6_sin6_addr = pfx \<rparr>,
       NextHop = \<lparr> si_family = AF_INET6, Ipv4_sin_addr = [0, 0, 0, 0],
                   Ipv6_sin6_addr = zero16 \<rparr>,
       Metric = 256 \<rparr>"

definition ex_lo :: network_interface where
  "ex_lo = (ex_iface ''{L}'' 1)
             \<lparr>name := ''Npcap Loopback Adapter'', ip := Some ''127.0.0.1'',
              ips := [''127.0.0.1'', ''::1'']\<rparr>"

definition ex_v4only :: network_interface where
  "ex_v4only = (ex_iface ''{B}'' 7)\<lparr>ip := Some ''10.0.0.2'', ips := [''10.0.0.2'']\<rparr>"

definition ex_route_world :: world where
  "ex_route_world =
     ex_world [(''{A}'', ex_iface ''{A}'' 5), (''{L}'', ex_lo), (''{B}'', ex_v4only)]
       (Some ex_lo)"

text \<open>
  The identifier under which \<open>load\<close> files a cache entry (upper case, without the capture
  device prefix) and the interface it builds for the entry, named for the statements about the
  cache loop.
\<close>

definition cache_guid :: "string \<Rightarrow> string" where
  "cache_guid g = py_replace npf_prefix '''' (py_upper g)"

definition synthesized :: "config \<Rightarrow> os_env \<Rightarrow> string \<Rightarrow> string \<Rightarrow> string list \<Rightarrow> network_interface" where
  "synthesized conf os n g l = NetworkInterface conf os (dummy_data n (cache_guid g) l)"

text \<open>
  The registry after the first loop of \<open>load\<close>, which files the interfaces that the OS
  enumerates, named for the statements about what \<open>load\<close> leaves in the registry.
\<close>

definition enumerated ::
  "config \<Rightarrow> os_env \<Rightarrow> world \<Rightarrow> if_data list \<Rightarrow> (string \<times> network_interface) list" where
  "enumerated conf os w ifl = load_interfaces conf os (IFACES_data w) ifl"

text \<open>
  Inputs for the address cache: a configuration with a chosen OS access flag and cache, a
  cached device path whose identifier is \<open>{N}\<close>, the record that the adapter of
  \<open>ex_os\<close> normalizes to, the registry after the OS enumeration, a process runner that
  always succeeds without output, and a cache with one entry of a chosen name.
\<close>

definition ex_cache_conf :: "bool \<Rightarrow> (string \<times> string \<times> string list) list \<Rightarrow> config" where
  "ex_cache_conf access cache = (ex_conf True)\<lparr>os_access := access, cache_iflist := cache\<rparr>"

definition ex_raw_guid :: string where
  "ex_raw_guid = [CHR 0x5C] @ ''Device'' @ [CHR 0x5C] @ ''NPF_{n}''"

definition ex_if_data :: if_data where
  "ex_if_data =
     \<lparr> d_name = ''Ethernet'', d_description = ''Intel NIC'', d_win_index = 5,
       d_guid = ''{A}'', d_mac = ''00:1b:2c:ab:cd:ef'', d_ipv4_metric = 10,
       d_ipv6_metric = 20, d_ips = [], d_netid = None, d_invalid = None \<rparr>"

definition ex_enumerated :: "config \<Rightarrow> os_env \<Rightarrow> world" where
  "ex_enumerated conf os =
     (ex_world [] None)\<lparr>IFACES_data := [(''{A}'', NetworkInterface conf os ex_if_data)]\<rparr>"

definition ex_popen :: "string list \<Rightarrow> string \<Rightarrow> int \<times> string" where
  "ex_popen h c = (0, [])"

definition ex_cache :: "string \<Rightarrow> (string \<times> string \<times> string list) list" where
  "ex_cache n = [(n, ex_raw_guid, [''10.9.0.1''])]"

section \<open>Properties\<close>

subsection \<open>Auxiliary facts\<close>

lemma find_Some_set: "find P xs = Some x \<Longrightarrow> x \<in> set xs \<and> P x"
  by (induction xs) (auto split: if_splits)

lemma find_None_conv: "(find P xs = None) = (\<forall>x\<in>set xs. \<not> P x)"
  by (induction xs) auto

subsection \<open>MAC extraction\<close>

text \<open>
  Claim C8. A raw adapter record whose physical-address length is not 6 gets the empty
  string as its MAC; one whose length is 6 gets the colon-hex string of the first six
  address bytes: two lower-case hexadecimal digits per byte, five colons, 17 characters.
\<close>

theorem get_mac_colon_hex:
  "(physical_address_length x \<noteq> 6 \<longrightarrow> get_mac x = '''') \<and>
   (physical_address_length x = 6 \<longrightarrow>
      get_mac x = str2mac (take 6 (physical_address x))) \<and>
   (physical_address_length x = 6 \<longrightarrow>
      physical_address x = ba # bb # bc # bd # be # bf # rest \<longrightarrow>
      get_mac x = hex2 ba @ '':'' @ hex2 bb @ '':'' @ hex2 bc @ '':'' @ hex2 bd @ '':''
                  @ hex2 be @ '':'' @ hex2 bf \<and> length (get_mac x) = 17)"
  by (simp add: get_mac_def str2mac_def hex2_def)

theorem get_mac_colon_hex_witness:
  "get_mac (ex_adapter 8) = '''' \<and> get_mac (ex_adapter 6) = ''00:1b:2c:ab:cd:ef''"
  using get_mac_colon_hex [where x = "ex_adapter 8"]
        get_mac_colon_hex [where x = "ex_adapter 6" and ba = "0x00" and bb = "0x1B"
          and bc = "0x2C" and bd = "0xAB" and be = "0xCD" and bf = "0xEF"
          and rest = "[0x00, 0x00]"]
  by (simp add: ex_adapter_def str2mac_def hex2_def hex_digit_def)

subsection \<open>Lookup by index\<close>

text \<open>
  Claim C7. Once a loopback interface is registered, \<open>dev_from_index(1)\<close> does not fail
  with \<open>ValueError\<close> (the module's not-found error): when some registry entry has index
  1, the first such entry in iteration order is returned, and otherwise the registered
  loopback interface is. For any other index that no entry has, \<open>dev_from_index\<close> fails
  with \<open>ValueError\<close>.
\<close>

theorem dev_from_index_loopback_fallback:
  "LOOPBACK_INTERFACE w = Some lo \<Longrightarrow>
     dev_from_index w 1 \<noteq> Inl ValueError \<and>
     ((\<exists>e\<in>set (itervalues (IFACES_data w)). win_index e = 1) \<longrightarrow>
        (\<exists>e\<in>set (itervalues (IFACES_data w)).
           win_index e = 1 \<and> dev_from_index w 1 = Inr e \<and>
           find (\<lambda>i. win_index i = 1) (itervalues (IFACES_data w)) = Some e)) \<and>
     ((\<forall>e\<in>set (itervalues (IFACES_data w)). win_index e \<noteq> 1) \<longrightarrow>
        dev_from_index w 1 = Inr lo) \<and>
     (n \<noteq> 1 \<and> (\<forall>e\<in>set (itervalues (IFACES_data w)). win_index e \<noteq> n) \<longrightarrow>
        dev_from_index w n = Inl ValueError)"
proof -
  assume lo: "LOOPBACK_INTERFACE w = Some lo"
  let ?vs = "itervalues (IFACES_data w)"
  have a: "dev_from_index w 1 \<noteq> Inl ValueError"
    using lo by (simp add: dev_from_index_def split: option.splits)
  have b: "(\<exists>e\<in>set ?vs. win_index e = 1) \<longrightarrow>
        (\<exists>e\<in>set ?vs. win_index e = 1 \<and> dev_from_index w 1 = Inr e \<and>
           find (\<lambda>i. win_index i = 1) ?vs = Some e)"
  proof
    assume "\<exists>e\<in>set ?vs. win_index e = 1"
    then have "find (\<lambda>i. win_index i = 1) ?vs \<noteq> None"
      by (simp add: find_None_conv)
    then obtain e where e: "find (\<lambda>i. win_index i = 1) ?vs = Some e" by blast
    then have "e \<in> set ?vs \<and> win_index e = 1" by (rule find_Some_set)
    moreover have "dev_from_index w 1 = Inr e" using e by (simp add: dev_from_index_def)
    ultimately show "\<exists>e\<in>set ?vs. win_index e = 1 \<and> dev_from_index w 1 = Inr e \<and>
           find (\<lambda>i. win_index i = 1) ?vs = Some e" using e by blast
  qed
  have c: "(\<forall>e\<in>set ?vs. win_index e \<noteq> 1) \<longrightarrow> dev_from_index w 1 = Inr lo"
    using lo by (simp add: dev_from_index_def find_None_conv [symmetric])
  have d: "n \<noteq> 1 \<and> (\<forall>e\<in>set ?vs. win_index e \<noteq> n) \<longrightarrow> dev_from_index w n = Inl ValueError"
    by (simp add: dev_from_index_def find_None_conv [symmetric])
  from a b c d show ?thesis by blast
qed

theorem dev_from_index_loopback_fallback_witness:
  "dev_from_index (ex_world [(''{A}'', ex_iface ''{A}'' 5)] (Some (ex_iface ''{L}'' (- 1)))) 1
     = Inr (ex_iface ''{L}'' (- 1)) \<and>
   dev_from_index (ex_world [(''{A}'', ex_iface ''{A}'' 5), (''{B}'', ex_iface ''{B}'' 1)]
                     (Some (ex_iface ''{L}'' (- 1)))) 1
     = Inr (ex_iface ''{B}'' 1) \<and>
   dev_from_index (ex_world [(''{A}'', ex_iface ''{A}'' 5)] (Some (ex_iface ''{L}'' (- 1)))) 7
     = Inl ValueError"
  using dev_from_index_loopback_fallback
          [where w = "ex_world [(''{A}'', ex_iface ''{A}'' 5)] (Some (ex_iface ''{L}'' (- 1)))"
             and lo = "ex_iface ''{L}'' (- 1)" and n = 7]
        dev_from_index_loopback_fallback
          [where w = "ex_world [(''{A}'', ex_iface ''{A}'' 5), (''{B}'', ex_iface ''{B}'' 1)]
                        (Some (ex_iface ''{L}'' (- 1)))"
             and lo = "ex_iface ''{L}'' (- 1)" and n = 7]
  by (simp add: ex_world_def ex_iface_def itervalues_def)

subsection \<open>Facts about update\<close>

lemma update_pcapdata_fields:
  "name (update_pcapdata os s) = name s"
  "ip (update_pcapdata os s) = ip s"
  "mac (update_pcapdata os s) = mac s"
  "description (update_pcapdata os s) = description s"
  "raw80211 (update_pcapdata os s) = raw80211 s"
  "cache_mode (update_pcapdata os s) = cache_mode s"
  "ipv4_metric (update_pcapdata os s) = ipv4_metric s"
  "ipv6_metric (update_pcapdata os s) = ipv6_metric s"
  "ips (update_pcapdata os s) = ips s"
  "win_index (update_pcapdata os s) = win_index s"
  "guid (update_pcapdata os s) = guid s"
  by (simp_all add: update_pcapdata_def split: option.splits)

lemma invalid_update_pcapdata:
  "\<forall>dv\<in>set (get_if_list os). \<not> suffix (guid s) dv \<Longrightarrow> invalid (update_pcapdata os s)"
  by (simp add: update_pcapdata_def is_invalid_def find_None_conv [symmetric])

lemma update_stage_fields:
  "name (update_stage conf os self data) =
     (if d_netid data = Some (LOOPBACK_NAME conf) then LOOPBACK_NAME conf else d_name data)"
  "ip (update_stage conf os self data) = ip self"
  "mac (update_stage conf os self data) = d_mac data"
  "description (update_stage conf os self data) = d_description data"
  "raw80211 (update_stage conf os self data) = raw80211 self"
  "cache_mode (update_stage conf os self data) = cache_mode self"
  "ipv4_metric (update_stage conf os self data) = d_ipv4_metric data"
  "ipv6_metric (update_stage conf os self data) = d_ipv6_metric data"
  "ips (update_stage conf os self data) = d_ips data"
  "win_index (update_stage conf os self data) = d_win_index data"
  "guid (update_stage conf os self data) = d_guid data"
  by (simp_all add: update_stage_def update_pcapdata_fields split: option.splits)

lemma update_via_stage:
  "update conf os self data =
     (let s3 = update_stage conf os self data
      in if name s3 = LOOPBACK_NAME conf \<and> use_npcap conf then
           s3\<lparr>mac := ''00:00:00:00:00:00'', ip := Some ''127.0.0.1''\<rparr>
         else
           (let s4 = (case find (\<lambda>x. CHR '':'' \<notin> set x) (ips s3) of
                        Some x \<Rightarrow> s3\<lparr>ip := Some x\<rparr>
                      | None \<Rightarrow> s3)
            in if (ip s4 = None \<or> ip s4 = Some '''') \<and> name s4 = LOOPBACK_NAME conf
               then s4\<lparr>ip := Some ''127.0.0.1''\<rparr>
               else s4))"
proof (cases "d_invalid data")
  case None
  then show ?thesis
    unfolding update_def update_stage_def by simp
next
  case (Some b)
  then show ?thesis
    unfolding update_def update_stage_def by simp
qed

lemma update_fields:
  "name (update conf os self data) =
     (if d_netid data = Some (LOOPBACK_NAME conf) then LOOPBACK_NAME conf else d_name data)"
  "description (update conf os self data) = d_description data"
  "win_index (update conf os self data) = d_win_index data"
  "guid (update conf os self data) = d_guid data"
  "ipv4_metric (update conf os self data) = d_ipv4_metric data"
  "ipv6_metric (update conf os self data) = d_ipv6_metric data"
  "ips (update conf os self data) = d_ips data"
  "raw80211 (update conf os self data) = raw80211 self"
  "cache_mode (update conf os self data) = cache_mode self"
  by (simp_all add: update_via_stage Let_def update_stage_fields split: option.splits)

lemma invalid_update:
  assumes "\<forall>dv\<in>set (get_if_list os). \<not> suffix (d_guid data) dv"
  shows "invalid (update conf os self data)"
proof -
  have "invalid (update_stage conf os self data)"
    unfolding update_stage_def
    by (rule invalid_update_pcapdata) (use assms in \<open>simp split: option.splits\<close>)
  then show ?thesis
    by (simp add: update_via_stage Let_def split: option.splits)
qed

subsection \<open>Capture-device name of an interface\<close>

text \<open>
  Claim C10. For a \<open>NetworkInterface\<close> object whose \<open>invalid\<close> flag is set, the
  module-level \<open>pcapname\<close> returns \<open>None\<close>: it neither raises nor hands out the
  \<open>pcap_name\<close> attribute, whatever that attribute holds. For a logical name that
  \<open>dev_from_name\<close> resolves, it returns the \<open>pcap_name\<close> of the entry found. An
  object that \<open>update\<close> leaves with an identifier no capture device name ends with is
  invalid, so \<open>pcapname\<close> returns \<open>None\<close> for it.
\<close>

theorem pcapname_invalid_none:
  "(invalid i \<longrightarrow> pcapname conf w (Iface i) = Inr None) \<and>
   (dev_from_name w n = Inr e \<longrightarrow> pcapname conf w (Name n) = Inr (pcap_name e)) \<and>
   ((\<forall>dv\<in>set (get_if_list os). \<not> suffix (d_guid data) dv) \<longrightarrow>
      pcapname conf w (Iface (update conf os self data)) = Inr None)"
  by (simp add: pcapname_def is_invalid_def invalid_update)

theorem pcapname_invalid_none_witness:
  "pcapname (ex_conf True) (ex_world [(''{A}'', ex_iface ''{A}'' 5)] None)
     (Iface ((ex_iface ''{B}'' 7)\<lparr>invalid := True\<rparr>)) = Inr None \<and>
   pcapname (ex_conf True) (ex_world [(''{A}'', ex_iface ''{A}'' 5)] None)
     (Name ''Ethernet {A}'') = Inr (Some ''NPF_{A}'') \<and>
   pcapname (ex_conf True) (ex_world [(''{A}'', ex_iface ''{A}'' 5)] None)
     (Iface (update (ex_conf True) (ex_os [''NPF_{A}''] (\<lambda>h c. (0, '''')))
               (ex_iface ''{L}'' 1) ex_loopback_data)) = Inr None"
proof -
  let ?w = "ex_world [(''{A}'', ex_iface ''{A}'' 5)] None"
  let ?os = "ex_os [''NPF_{A}''] (\<lambda>h c. (0, ''''))"
  have h1: "invalid ((ex_iface ''{B}'' 7)\<lparr>invalid := True\<rparr>)" by simp
  have h2: "dev_from_name ?w ''Ethernet {A}'' = Inr (ex_iface ''{A}'' 5)"
    by (simp add: dev_from_name_def ex_world_def itervalues_def ex_iface_def)
  have h3: "\<forall>dv\<in>set (get_if_list ?os). \<not> suffix (d_guid ex_loopback_data) dv"
    by (simp add: ex_os_def ex_loopback_data_def suffix_to_prefix)
  have p: "pcap_name (ex_iface ''{A}'' 5) = Some ''NPF_{A}''"
    by (simp add: ex_iface_def)
  from h1 h2 h3 p
    pcapname_invalid_none
      [where i = "(ex_iface ''{B}'' 7)\<lparr>invalid := True\<rparr>" and conf = "ex_conf True"
         and w = ?w and n = "''Ethernet {A}''" and e = "ex_iface ''{A}'' 5"
         and os = ?os and data = ex_loopback_data and self = "ex_iface ''{L}'' 1"]
  show ?thesis by simp
qed

subsection \<open>The loopback special case of update\<close>

text \<open>
  Claim C5, as amended. For an adapter record whose \<open>netid\<close> or \<open>name\<close> is the
  loopback name, the interface after \<open>update\<close> carries the loopback name. When the
  capture backend is Npcap (\<open>conf.use_npcap\<close>), its MAC is forced to
  \<open>00:00:00:00:00:00\<close> and its primary IPv4 address to \<open>127.0.0.1\<close>, whatever addresses
  the OS reported. Without Npcap the MAC is the reported one and the primary address is the
  first reported address without a colon; \<open>127.0.0.1\<close> is used only when that leaves the
  address empty (no such address reported and none set before, or an empty one).
\<close>

theorem update_loopback_forced:
  "d_netid data = Some (LOOPBACK_NAME conf) \<or> d_name data = LOOPBACK_NAME conf \<Longrightarrow>
   name (update conf os self data) = LOOPBACK_NAME conf \<and>
   (use_npcap conf \<longrightarrow>
      mac (update conf os self data) = ''00:00:00:00:00:00'' \<and>
      ip (update conf os self data) = Some ''127.0.0.1'') \<and>
   (\<not> use_npcap conf \<longrightarrow>
      mac (update conf os self data) = d_mac data \<and>
      ip (update conf os self data) =
        (case find (\<lambda>x. CHR '':'' \<notin> set x) (d_ips data) of
           Some x \<Rightarrow> if x = '''' then Some ''127.0.0.1'' else Some x
         | None \<Rightarrow> if ip self = None \<or> ip self = Some '''' then Some ''127.0.0.1''
                    else ip self))"
proof -
  assume lb: "d_netid data = Some (LOOPBACK_NAME conf) \<or> d_name data = LOOPBACK_NAME conf"
  let ?s3 = "update_stage conf os self data"
  have n3: "name ?s3 = LOOPBACK_NAME conf"
    using lb by (auto simp add: update_stage_fields)
  have a: "name (update conf os self data) = LOOPBACK_NAME conf"
    using lb by (auto simp add: update_fields)
  have b: "use_npcap conf \<longrightarrow>
      mac (update conf os self data) = ''00:00:00:00:00:00'' \<and>
      ip (update conf os self data) = Some ''127.0.0.1''"
    by (simp add: update_via_stage Let_def n3)
  have c: "\<not> use_npcap conf \<longrightarrow>
      mac (update conf os self data) = d_mac data \<and>
      ip (update conf os self data) =
        (case find (\<lambda>x. CHR '':'' \<notin> set x) (d_ips data) of
           Some x \<Rightarrow> if x = '''' then Some ''127.0.0.1'' else Some x
         | None \<Rightarrow> if ip self = None \<or> ip self = Some '''' then Some ''127.0.0.1''
                    else ip self)"
    using lb by (auto simp add: update_via_stage Let_def update_stage_fields split: option.splits)
  from a b c show ?thesis by blast
qed

theorem update_loopback_forced_witness:
  "mac (update (ex_conf True) (ex_os [''NPF_{L}''] (\<lambda>h c. (0, '''')))
          blank_interface ex_loopback_data) = ''00:00:00:00:00:00'' \<and>
   ip (update (ex_conf True) (ex_os [''NPF_{L}''] (\<lambda>h c. (0, '''')))
          blank_interface ex_loopback_data) = Some ''127.0.0.1'' \<and>
   ip (update (ex_conf False) (ex_os [''NPF_{L}''] (\<lambda>h c. (0, '''')))
          blank_interface (ex_loopback_data\<lparr>d_ips := [''fe80::2'']\<rparr>)) = Some ''127.0.0.1''"
proof -
  let ?os = "ex_os [''NPF_{L}''] (\<lambda>h c. (0, ''''))"
  have n1: "d_netid ex_loopback_data = Some (LOOPBACK_NAME (ex_conf True)) \<or>
            d_name ex_loopback_data = LOOPBACK_NAME (ex_conf True)"
    by (simp add: ex_loopback_data_def ex_conf_def)
  have n2: "d_netid (ex_loopback_data\<lparr>d_ips := [''fe80::2'']\<rparr>) = Some (LOOPBACK_NAME (ex_conf False)) \<or>
            d_name (ex_loopback_data\<lparr>d_ips := [''fe80::2'']\<rparr>) = LOOPBACK_NAME (ex_conf False)"
    by (simp add: ex_loopback_data_def ex_conf_def)
  have u: "use_npcap (ex_conf True)" "\<not> use_npcap (ex_conf False)"
    by (simp_all add: ex_conf_def)
  have i: "ip blank_interface = None" by (simp add: blank_interface_def)
  from update_loopback_forced [OF n1, of ?os blank_interface]
       update_loopback_forced [OF n2, of ?os blank_interface] u i
  show ?thesis by simp
qed

text \<open>
  The claim as first stated fails without Npcap: a record named as the loopback adapter,
  reporting the MAC \<open>02:00:4c:4f:4f:50\<close> and the address \<open>10.0.0.1\<close>, keeps both.
\<close>

theorem update_loopback_forced_counterexample:
  "d_name ex_loopback_data = LOOPBACK_NAME (ex_conf False) \<and>
   mac (update (ex_conf False) (ex_os [''NPF_{L}''] (\<lambda>h c. (0, '''')))
          blank_interface ex_loopback_data) = ''02:00:4c:4f:4f:50'' \<and>
   ip (update (ex_conf False) (ex_os [''NPF_{L}''] (\<lambda>h c. (0, '''')))
          blank_interface ex_loopback_data) = Some ''10.0.0.1''"
proof -
  let ?u = "update (ex_conf False) (ex_os [''NPF_{L}''] (\<lambda>h c. (0, ''''))) blank_interface
              ex_loopback_data"
  let ?s = "update_stage (ex_conf False) (ex_os [''NPF_{L}''] (\<lambda>h c. (0, ''''))) blank_interface
              ex_loopback_data"
  have f: "find (\<lambda>x. CHR '':'' \<notin> set x) (d_ips ex_loopback_data) = Some ''10.0.0.1''"
    by (simp add: ex_loopback_data_def)
  have np: "\<not> use_npcap (ex_conf False)" by (simp add: ex_conf_def)
  have "?u = ?s\<lparr>ip := Some ''10.0.0.1''\<rparr>"
    by (simp add: update_via_stage Let_def np update_stage_fields f)
  moreover have "mac ?s = ''02:00:4c:4f:4f:50''"
    by (simp add: update_stage_fields ex_loopback_data_def)
  moreover have "d_name ex_loopback_data = LOOPBACK_NAME (ex_conf False)"
    by (simp add: ex_loopback_data_def ex_conf_def)
  ultimately show ?thesis by simp
qed

subsection \<open>Monitor mode and its cache\<close>

lemma exec_cmd_eq:
  "exec_cmd os w c =
     (if fst (Popen os (history w) c) \<noteq> 0 then ''error'' else snd (Popen os (history w) c),
      w\<lparr>history := history w @ [c]\<rparr>)"
  by (simp add: exec_cmd_def Let_def split: prod.splits)

lemma npcap_set_eq:
  "npcap_set conf os w self ''mode'' m =
     (fst (exec_cmd os w (set_mode_command conf self m)) = [],
      w\<lparr>history := history w @ [set_mode_command conf self m]\<rparr>)"
  by (simp add: npcap_set_def set_mode_command_def exec_cmd_eq Let_def)


lemma check_npcap_requirement_keeps:
  "check_npcap_requirement conf os self = (r, self1) \<Longrightarrow>
     guid self1 = guid self \<and> cache_mode self1 = cache_mode self"
  by (auto simp add: check_npcap_requirement_def Let_def split: if_splits)






lemma setmode_result:
  assumes "setmode conf os w self (ModeStr m) = (Inr res, s1, w1)"
  shows "guid s1 = guid self \<and> cache_mode s1 = cache_mode self \<and>
         res = (fst (exec_cmd os w (set_mode_command conf self m)) = []) \<and>
         w1 = w\<lparr>history := history w @ [set_mode_command conf self m]\<rparr>"
proof -
  obtain c s where c: "check_npcap_requirement conf os self = (c, s)"
    by (cases "check_npcap_requirement conf os self")
  from check_npcap_requirement_keeps [OF c]
  have k: "guid s = guid self" "cache_mode s = cache_mode self" by simp_all
  have cmd: "set_mode_command conf s m = set_mode_command conf self m"
    by (simp add: set_mode_command_def k)
  from assms c k cmd show ?thesis
    by (cases c) (auto simp add: setmode_def npcap_set_eq Let_def)
qed

lemma setmonitor_capable:
  assumes "use_npcap conf" "raw80211 self = Some True"
  shows "fst (setmonitor conf os w self True) =
           Inr (fst (exec_cmd os w (set_mode_command conf self ''monitor'')) = [])"
    and "cache_mode (fst (snd (setmonitor conf os w self True))) =
           Some (fst (exec_cmd os w (set_mode_command conf self ''monitor'')) = [])"
  using assms
  by (simp_all add: setmonitor_def setmode_def check_npcap_requirement_def npcap_set_eq
        Let_def)

text \<open>
  Claim C4, as amended. When \<open>setmonitor(enable)\<close> returns \<open>res\<close>, the result of the
  helper's set command (true exactly when the command exits with code 0 and prints
  nothing), the cache holds \<open>res\<close> for enable and \<open>not res\<close> for disable; an
  \<open>ismonitor\<close> call right after returns that cached value and leaves the object and the
  process state as they are, so it runs no helper command: the history holds the one set
  command and nothing more. After \<open>setmonitor(true)\<close>, \<open>ismonitor\<close> therefore returns
  the result of the set command, true when the helper succeeded.
\<close>

theorem setmonitor_then_ismonitor:
  "setmonitor conf os w self enable = (Inr res, self1, w1) \<Longrightarrow>
     cache_mode self1 = Some (if enable then res else \<not> res) \<and>
     ismonitor conf os w1 self1 = (Inr (if enable then res else \<not> res), self1, w1) \<and>
     history w1 =
       history w @ [set_mode_command conf self (if enable then ''monitor'' else ''managed'')] \<and>
     res = (fst (exec_cmd os w
              (set_mode_command conf self (if enable then ''monitor'' else ''managed''))) = [])"
proof -
  assume sm: "setmonitor conf os w self enable = (Inr res, self1, w1)"
  let ?m = "if enable then ''monitor'' else ''managed''"
  obtain r s v where md: "setmode conf os w self (ModeStr ?m) = (r, s, v)"
    by (cases "setmode conf os w self (ModeStr ?m)")
  from sm md have r: "r = Inr res"
    by (cases r) (auto simp add: setmonitor_def split: if_splits)
  from sm md r have s1: "self1 = s\<lparr>cache_mode := Some (if enable then res else \<not> res)\<rparr>"
    by (auto simp add: setmonitor_def split: if_splits)
  from sm md r have h: "history w1 = history v"
    by (auto simp add: setmonitor_def split: if_splits)
  from setmode_result [OF md [unfolded r]]
  have sr: "res = (fst (exec_cmd os w (set_mode_command conf self ?m)) = [])"
    "v = w\<lparr>history := history w @ [set_mode_command conf self ?m]\<rparr>"
    by simp_all
  have c: "cache_mode self1 = Some (if enable then res else \<not> res)"
    by (simp add: s1)
  then have i: "ismonitor conf os w1 self1 = (Inr (if enable then res else \<not> res), self1, w1)"
    by (simp add: ismonitor_def)
  from c i h sr show ?thesis by simp
qed

theorem setmonitor_then_ismonitor_witness:
  "fst (setmonitor (ex_conf True) (ex_os [] (\<lambda>h c. (0, ''''))) (ex_world [] None)
          (ex_wifi (Some True) None) True) = Inr True \<and>
   fst (ismonitor (ex_conf True) (ex_os [] (\<lambda>h c. (0, '''')))
          (snd (snd (setmonitor (ex_conf True) (ex_os [] (\<lambda>h c. (0, ''''))) (ex_world [] None)
                       (ex_wifi (Some True) None) True)))
          (fst (snd (setmonitor (ex_conf True) (ex_os [] (\<lambda>h c. (0, ''''))) (ex_world [] None)
                       (ex_wifi (Some True) None) True)))) = Inr True"
proof -
  let ?C = "ex_conf True"
  let ?O = "ex_os [] (\<lambda>h c. (0, ''''))"
  let ?W = "ex_world [] None"
  let ?I = "ex_wifi (Some True) None"
  have np: "use_npcap ?C" by (simp add: ex_conf_def)
  have cap: "raw80211 ?I = Some True" by (simp add: ex_wifi_def)
  have f: "fst (setmonitor ?C ?O ?W ?I True) = Inr True"
    by (simp add: setmonitor_capable(1) [OF np cap] exec_cmd_eq ex_os_def)
  then have sm: "setmonitor ?C ?O ?W ?I True =
                   (Inr True, fst (snd (setmonitor ?C ?O ?W ?I True)),
                    snd (snd (setmonitor ?C ?O ?W ?I True)))"
    by (metis prod.collapse)
  from setmonitor_then_ismonitor [OF sm] f show ?thesis by simp
qed

text \<open>
  The claim as first stated fails when the helper reports an error: with a helper that
  exits with code 1, \<open>setmonitor(true)\<close> returns \<open>False\<close> and the \<open>ismonitor\<close> call
  that follows returns \<open>False\<close> from the cache.
\<close>

theorem setmonitor_then_ismonitor_counterexample:
  "fst (setmonitor (ex_conf True) (ex_os [] (\<lambda>h c. (1, ''''))) (ex_world [] None)
          (ex_wifi (Some True) None) True) = Inr False \<and>
   fst (ismonitor (ex_conf True) (ex_os [] (\<lambda>h c. (1, '''')))
          (snd (snd (setmonitor (ex_conf True) (ex_os [] (\<lambda>h c. (1, ''''))) (ex_world [] None)
                       (ex_wifi (Some True) None) True)))
          (fst (snd (setmonitor (ex_conf True) (ex_os [] (\<lambda>h c. (1, ''''))) (ex_world [] None)
                       (ex_wifi (Some True) None) True)))) = Inr False"
proof -
  let ?C = "ex_conf True"
  let ?O = "ex_os [] (\<lambda>h c. (1, ''''))"
  let ?W = "ex_world [] None"
  let ?I = "ex_wifi (Some True) None"
  have np: "use_npcap ?C" by (simp add: ex_conf_def)
  have cap: "raw80211 ?I = Some True" by (simp add: ex_wifi_def)
  have f: "fst (setmonitor ?C ?O ?W ?I True) = Inr False"
    by (simp add: setmonitor_capable(1) [OF np cap] exec_cmd_eq ex_os_def)
  have c: "cache_mode (fst (snd (setmonitor ?C ?O ?W ?I True))) = Some False"
    by (simp add: setmonitor_capable(2) [OF np cap] exec_cmd_eq ex_os_def)
  from f c show ?thesis by (simp add: ismonitor_def)
qed

subsection \<open>Route tables\<close>

lemma set_append_route6:
  "r \<in> set (append_route6 conf os routes dpref dp nh iface lifaddr metric) \<Longrightarrow>
     r \<in> set routes \<or>
     (name iface = LOOPBACK_NAME conf \<and> dpref \<noteq> ''::'' \<and>
        r = Route6 dpref dp nh iface [''::1''] metric) \<or>
     (name iface \<noteq> LOOPBACK_NAME conf \<and>
        construct_source_candidate_set os dpref dp
          (filter (\<lambda>x. snd (snd x) = iface) lifaddr) \<noteq> [] \<and>
        r = Route6 dpref dp nh iface
              (construct_source_candidate_set os dpref dp
                 (filter (\<lambda>x. snd (snd x) = iface) lifaddr)) metric)"
  by (auto simp add: append_route6_def Let_def split: if_splits)

lemma read_routes_c_v1_loop_metric:
  "read_routes_c_v1_loop os w acc table = Inr rs \<Longrightarrow> r \<in> set rs \<Longrightarrow>
     r \<in> set acc \<or>
     (\<exists>row\<in>set table.
        dev_from_index w (ForwardIfIndex row) = Inr (route_iface r) \<and>
        route_metric r = ForwardMetric1 row + ipv4_metric (route_iface r))"
proof (induction table arbitrary: acc)
  case Nil
  then show ?case by simp
next
  case (Cons row rest)
  show ?case
  proof (cases "inet_ntop os AF_INET (pack_le32 (ForwardNextHop row))")
    case (Inl e)
    with Cons.prems show ?thesis by simp
  next
    case nh: (Inr nexthop)
    show ?thesis
    proof (cases "dev_from_index w (ForwardIfIndex row)")
      case (Inl e)
      with Cons.prems nh have "read_routes_c_v1_loop os w acc rest = Inr rs"
        by (simp split: if_splits)
      from Cons.IH [OF this Cons.prems(2)] show ?thesis by auto
    next
      case (Inr iface)
      show ?thesis
      proof (cases "ip iface = Some ''0.0.0.0''")
        case True
        with Cons.prems nh Inr have "read_routes_c_v1_loop os w acc rest = Inr rs"
          by simp
        from Cons.IH [OF this Cons.prems(2)] show ?thesis by auto
      next
        case False
        let ?new = "Route (ForwardDest row) (ForwardMask row) nexthop iface (ip iface)
                      (ForwardMetric1 row + ipv4_metric iface)"
        from Cons.prems nh Inr False
        have "read_routes_c_v1_loop os w (acc @ [?new]) rest = Inr rs"
          by (simp add: Let_def)
        from Cons.IH [OF this Cons.prems(2)] Inr show ?thesis by auto
      qed
    qed
  qed
qed

lemma read_routes_c_loop_rows:
  "read_routes_c_loop conf os w ipv6 lifaddr acc table = Inr rs \<Longrightarrow> r \<in> set rs \<Longrightarrow>
     r \<in> set acc \<or> (\<exists>row\<in>set table. route_from_row conf os w ipv6 lifaddr row r)"
proof (induction table arbitrary: acc)
  case Nil
  then show ?case by simp
next
  case (Cons row rest)
  note step = Cons.prems(1)
  show ?case
  proof (cases "extract_ip_netmask os ipv6 (DestinationPrefix_Prefix row)")
    case (Inl e)
    with step show ?thesis by simp
  next
    case d: (Inr dn)
    obtain dest netmask where dn: "dn = (dest, netmask)" by (cases dn)
    show ?thesis
    proof (cases "extract_ip_netmask os ipv6 (NextHop row)")
      case (Inl e)
      with step d dn show ?thesis by simp
    next
      case n: (Inr nn)
      obtain nexthop nm where nn: "nn = (nexthop, nm)" by (cases nn)
      show ?thesis
      proof (cases "dev_from_index w (InterfaceIndex row)")
        case (Inl e)
        with step d dn n nn
        have "read_routes_c_loop conf os w ipv6 lifaddr acc rest = Inr rs"
          by (simp split: if_splits)
        from Cons.IH [OF this Cons.prems(2)] show ?thesis by auto
      next
        case i: (Inr iface)
        show ?thesis
        proof (cases "ip iface = Some ''0.0.0.0''")
          case True
          with step d dn n nn i
          have "read_routes_c_loop conf os w ipv6 lifaddr acc rest = Inr rs"
            by simp
          from Cons.IH [OF this Cons.prems(2)] show ?thesis by auto
        next
          case nz: False
          show ?thesis
          proof (cases ipv6)
            case True
            let ?acc = "append_route6 conf os acc dest netmask nexthop iface lifaddr
                          (Metric row + ipv6_metric iface)"
            from step d dn n nn i nz True
            have "read_routes_c_loop conf os w ipv6 lifaddr ?acc rest = Inr rs"
              by (simp add: Let_def)
            from Cons.IH [OF this Cons.prems(2)]
            have "r \<in> set ?acc \<or>
                  (\<exists>row\<in>set rest. route_from_row conf os w ipv6 lifaddr row r)" .
            then show ?thesis
            proof
              assume "r \<in> set ?acc"
              from set_append_route6 [OF this] i True
              have "r \<in> set acc \<or> route_from_row conf os w ipv6 lifaddr row r"
                by (auto simp add: route_from_row_def)
              then show ?thesis by auto
            next
              assume "\<exists>row\<in>set rest. route_from_row conf os w ipv6 lifaddr row r"
              then show ?thesis by auto
            qed
          next
            case v4: False
            show ?thesis
            proof (cases "atol os dest")
              case (Inl e)
              with step d dn n nn i nz v4 show ?thesis by (simp add: Let_def)
            next
              case (Inr dd)
              let ?new = "Route dd (itom os netmask) nexthop iface (ip iface)
                            (Metric row + ipv4_metric iface)"
              from step d dn n nn i nz v4 Inr
              have "read_routes_c_loop conf os w ipv6 lifaddr (acc @ [?new]) rest = Inr rs"
                by (simp add: Let_def)
              from Cons.IH [OF this Cons.prems(2)]
              have "r \<in> set (acc @ [?new]) \<or>
                    (\<exists>row\<in>set rest. route_from_row conf os w ipv6 lifaddr row r)" .
              with i v4 show ?thesis
                by (auto simp add: route_from_row_def)
            qed
          qed
        qed
      qed
    qed
  qed
qed

lemma ex_v1_table:
  "read_routes_c_v1 (ex_route_os [ex_row] []) ex_route_world =
     Inr [Route 0 0 ''192.168.1.1'' (ex_iface ''{A}'' 5) (Some ''192.168.1.50'') 266]"
  by (simp add: read_routes_c_v1_def ex_route_os_def ex_os_def ex_row_def ex_inet_ntop_def
        dev_from_index_def ex_route_world_def ex_world_def itervalues_def ex_iface_def
        AF_INET_def AF_INET6_def Let_def)

lemma ex_v2_table:
  "read_routes_c (ex_conf True) (ex_route_os [] [ex_row2 5 [0, 0, 0, 0]]) ex_route_world False =
     Inr [Route 0 0 ''192.168.1.1'' (ex_iface ''{A}'' 5) (Some ''192.168.1.50'') 266]"
  by (simp add: read_routes_c_def ex_route_os_def ex_os_def ex_row2_def ex_inet_ntop_def
        extract_ip_netmask_def rstrip_zero_def
        dev_from_index_def ex_route_world_def ex_world_def itervalues_def ex_iface_def
        AF_INET_def AF_INET6_def Let_def)

lemma ex_lookup:
  "dev_from_index ex_route_world 5 = Inr (ex_iface ''{A}'' 5)"
  "dev_from_index ex_route_world 1 = Inr ex_lo"
  "dev_from_index ex_route_world 7 = Inr ex_v4only"
  by (simp_all add: dev_from_index_def ex_route_world_def ex_world_def itervalues_def
        ex_iface_def ex_lo_def ex_v4only_def)

lemma ex_iface_facts:
  "name (ex_iface ''{A}'' 5) \<noteq> LOOPBACK_NAME (ex_conf True)"
  "name ex_lo = LOOPBACK_NAME (ex_conf True)"
  "name ex_v4only \<noteq> LOOPBACK_NAME (ex_conf True)"
  "ip (ex_iface ''{A}'' 5) \<noteq> Some ''0.0.0.0''"
  "ip ex_lo \<noteq> Some ''0.0.0.0''"
  "ip ex_v4only \<noteq> Some ''0.0.0.0''"
  "ipv6_metric (ex_iface ''{A}'' 5) = 20"
  "ipv6_metric ex_lo = 20"
  "ipv6_metric ex_v4only = 20"
  "ex_lo \<noteq> ex_iface ''{A}'' 5"
  "ex_v4only \<noteq> ex_iface ''{A}'' 5"
  "ex_lo \<noteq> ex_v4only"
  "ex_iface ''{A}'' 5 \<noteq> ex_lo"
  "ex_iface ''{A}'' 5 \<noteq> ex_v4only"
  "ex_v4only \<noteq> ex_lo"
  by (simp_all add: ex_iface_def ex_lo_def ex_v4only_def ex_conf_def)

lemma ex_lifaddr:
  "in6_getifaddr (ex_conf True) (ex_route_os t1 t2) ex_route_world =
     [(''fe80::1'', 0, ex_iface ''{A}'' 5), (''::1'', 0, ex_lo), (''::1'', 0, ex_lo)]"
proof -
  have i: "ips (ex_iface ''{A}'' 5) = [''192.168.1.50'', ''fe80::1'']"
    "ips ex_lo = [''127.0.0.1'', ''::1'']" "ips ex_v4only = [''10.0.0.2'']"
    by (simp_all add: ex_iface_def ex_lo_def ex_v4only_def)
  have g: "get_ips ex_route_world True =
             [(ex_iface ''{A}'' 5, [''fe80::1'']), (ex_lo, [''::1'']), (ex_v4only, [])]"
    by (simp add: get_ips_def ex_route_world_def ex_world_def itervalues_def i)
  have l: "LOOPBACK_INTERFACE ex_route_world = Some ex_lo"
    by (simp add: ex_route_world_def ex_world_def)
  have s: "in6_getscope (ex_route_os t1 t2) = (\<lambda>a. 0)"
    by (simp add: ex_route_os_def ex_os_def)
  have n: "use_npcap (ex_conf True)" by (simp add: ex_conf_def)
  show ?thesis
    by (simp add: in6_getifaddr_def g l s n)
qed

lemma ex_extract:
  "extract_ip_netmask (ex_route_os t1 t2) True (DestinationPrefix_Prefix (ex_row2 i fe80))
     = Inr (''fe80::'', 16)"
  "extract_ip_netmask (ex_route_os t1 t2) True (DestinationPrefix_Prefix (ex_row2 i zero16))
     = Inr (''::'', 0)"
  "extract_ip_netmask (ex_route_os t1 t2) True (NextHop (ex_row2 i p)) = Inr (''::'', 0)"
  by (simp_all add: extract_ip_netmask_def ex_route_os_def ex_os_def ex_row2_def
        ex_inet_ntop_def rstrip_zero_def zero16_def fe80_def AF_INET6_def Let_def)

lemma ex_v6_table:
  "read_routes_c (ex_conf True)
     (ex_route_os [] [ex_row2 5 fe80, ex_row2 1 zero16, ex_row2 1 fe80, ex_row2 7 fe80])
     ex_route_world True =
     Inr [Route6 ''fe80::'' 16 ''::'' (ex_iface ''{A}'' 5) [''fe80::1''] 276,
          Route6 ''fe80::'' 16 ''::'' ex_lo [''::1''] 276]"
proof -
  let ?t = "[ex_row2 5 fe80, ex_row2 1 zero16, ex_row2 1 fe80, ex_row2 7 fe80]"
  let ?O = "ex_route_os [] ?t"
  have t: "GetIpForwardTable2 ?O AF_INET6 = Inr ?t"
    by (simp add: ex_route_os_def)
  have c: "construct_source_candidate_set ?O = (\<lambda>dpref dp addrs. map fst addrs)"
    by (simp add: ex_route_os_def ex_os_def)
  have r: "InterfaceIndex (ex_row2 i p) = i" "Metric (ex_row2 i p) = 256" for i p
    by (simp_all add: ex_row2_def)
  show ?thesis
    by (simp add: read_routes_c_def t ex_lifaddr ex_extract ex_lookup ex_iface_facts r c
          append_route6_def Let_def)
qed

lemma ex_failing_build:
  "read_routes_c conf ex_failing_os w ipv6 = Inl (OtherError ''GetIpForwardTable2'')"
  by (simp add: read_routes_c_def ex_failing_os_def Let_def)

lemma ex_empty_build:
  "read_routes_c conf (ex_route_os [] []) w False = Inr []"
  by (simp add: read_routes_c_def ex_route_os_def Let_def)

text \<open>
  Claim C1. Every route of a table built by \<open>_read_routes_c_v1\<close> or by
  \<open>_read_routes_c\<close> (IPv4 and IPv6) comes from a row of the OS forward table whose
  interface index \<open>dev_from_index\<close> resolves to the route's interface, and the route's
  metric is the row's raw metric plus that interface's metric for the family:
  \<open>ipv4_metric\<close> for an IPv4 route, \<open>ipv6_metric\<close> for an IPv6 route.
\<close>

theorem route_metric_sum:
  "(read_routes_c_v1 os w = Inr rs \<longrightarrow> r \<in> set rs \<longrightarrow>
      (\<exists>table. GetIpForwardTable os = Inr table \<and>
         (\<exists>row\<in>set table.
            dev_from_index w (ForwardIfIndex row) = Inr (route_iface r) \<and>
            route_metric r = ForwardMetric1 row + ipv4_metric (route_iface r)))) \<and>
   (read_routes_c conf os w False = Inr rs4 \<longrightarrow> r4 \<in> set rs4 \<longrightarrow>
      (\<exists>table. GetIpForwardTable2 os AF_INET = Inr table \<and>
         (\<exists>row\<in>set table.
            dev_from_index w (InterfaceIndex row) = Inr (route_iface r4) \<and>
            route_metric r4 = Metric row + ipv4_metric (route_iface r4)))) \<and>
   (read_routes_c conf os w True = Inr rs6 \<longrightarrow> r6 \<in> set rs6 \<longrightarrow>
      (\<exists>table. GetIpForwardTable2 os AF_INET6 = Inr table \<and>
         (\<exists>row\<in>set table.
            dev_from_index w (InterfaceIndex row) = Inr (route_iface r6) \<and>
            route_metric r6 = Metric row + ipv6_metric (route_iface r6))))"
proof -
  have v1: "read_routes_c_v1 os w = Inr rs \<longrightarrow> r \<in> set rs \<longrightarrow>
      (\<exists>table. GetIpForwardTable os = Inr table \<and>
         (\<exists>row\<in>set table.
            dev_from_index w (ForwardIfIndex row) = Inr (route_iface r) \<and>
            route_metric r = ForwardMetric1 row + ipv4_metric (route_iface r)))"
  proof (intro impI)
    assume a: "read_routes_c_v1 os w = Inr rs" and b: "r \<in> set rs"
    from a obtain table where t: "GetIpForwardTable os = Inr table"
      and l: "read_routes_c_v1_loop os w [] table = Inr rs"
      by (auto simp add: read_routes_c_v1_def split: sum.splits)
    from read_routes_c_v1_loop_metric [OF l b] t show
      "\<exists>table. GetIpForwardTable os = Inr table \<and>
         (\<exists>row\<in>set table.
            dev_from_index w (ForwardIfIndex row) = Inr (route_iface r) \<and>
            route_metric r = ForwardMetric1 row + ipv4_metric (route_iface r))"
      by simp
  qed
  have v2: "\<And>ipv6 rsx rx. read_routes_c conf os w ipv6 = Inr rsx \<Longrightarrow> rx \<in> set rsx \<Longrightarrow>
      (\<exists>table. GetIpForwardTable2 os (if ipv6 then AF_INET6 else AF_INET) = Inr table \<and>
         (\<exists>row\<in>set table.
            dev_from_index w (InterfaceIndex row) = Inr (route_iface rx) \<and>
            route_metric rx = Metric row
              + (if ipv6 then ipv6_metric (route_iface rx) else ipv4_metric (route_iface rx))))"
  proof -
    fix ipv6 rsx rx
    assume a: "read_routes_c conf os w ipv6 = Inr rsx" and b: "rx \<in> set rsx"
    let ?l = "if ipv6 then in6_getifaddr conf os w else []"
    from a obtain table
      where t: "GetIpForwardTable2 os (if ipv6 then AF_INET6 else AF_INET) = Inr table"
      and l: "read_routes_c_loop conf os w ipv6 ?l [] table = Inr rsx"
      by (auto simp add: read_routes_c_def Let_def split: sum.splits)
    from read_routes_c_loop_rows [OF l b]
    obtain row where "row \<in> set table" "route_from_row conf os w ipv6 ?l row rx"
      by auto
    with t show "\<exists>table. GetIpForwardTable2 os (if ipv6 then AF_INET6 else AF_INET) = Inr table \<and>
         (\<exists>row\<in>set table.
            dev_from_index w (InterfaceIndex row) = Inr (route_iface rx) \<and>
            route_metric rx = Metric row
              + (if ipv6 then ipv6_metric (route_iface rx) else ipv4_metric (route_iface rx)))"
      unfolding route_from_row_def by blast
  qed
  from v1 v2 [of False rs4 r4] v2 [of True rs6 r6] show ?thesis by simp
qed

theorem route_metric_sum_witness:
  "read_routes_c_v1 (ex_route_os [ex_row] []) ex_route_world =
     Inr [Route 0 0 ''192.168.1.1'' (ex_iface ''{A}'' 5) (Some ''192.168.1.50'') 266] \<and>
   266 = ForwardMetric1 ex_row + ipv4_metric (ex_iface ''{A}'' 5) \<and>
   read_routes_c (ex_conf True) (ex_route_os [] [ex_row2 5 [0, 0, 0, 0]]) ex_route_world False =
     Inr [Route 0 0 ''192.168.1.1'' (ex_iface ''{A}'' 5) (Some ''192.168.1.50'') 266] \<and>
   read_routes_c (ex_conf True)
     (ex_route_os [] [ex_row2 5 fe80, ex_row2 1 zero16, ex_row2 1 fe80, ex_row2 7 fe80])
     ex_route_world True =
     Inr [Route6 ''fe80::'' 16 ''::'' (ex_iface ''{A}'' 5) [''fe80::1''] 276,
          Route6 ''fe80::'' 16 ''::'' ex_lo [''::1''] 276] \<and>
   276 = Metric (ex_row2 5 fe80) + ipv6_metric (ex_iface ''{A}'' 5)"
proof -
  let ?R4 = "Route 0 0 ''192.168.1.1'' (ex_iface ''{A}'' 5) (Some ''192.168.1.50'') 266"
  let ?R6 = "Route6 ''fe80::'' 16 ''::'' (ex_iface ''{A}'' 5) [''fe80::1''] 276"
  let ?t6 = "[ex_row2 5 fe80, ex_row2 1 zero16, ex_row2 1 fe80, ex_row2 7 fe80]"
  have m: "ForwardMetric1 ex_row = 256" "ipv4_metric (ex_iface ''{A}'' 5) = 10"
    "Metric (ex_row2 5 fe80) = 256" "ipv6_metric (ex_iface ''{A}'' 5) = 20"
    by (simp_all add: ex_row_def ex_row2_def ex_iface_def)
  from route_metric_sum
         [where os = "ex_route_os [ex_row] []" and w = ex_route_world and r = ?R4
            and rs = "[?R4]"]
       route_metric_sum
         [where os = "ex_route_os [] [ex_row2 5 [0, 0, 0, 0]]" and w = ex_route_world
            and conf = "ex_conf True" and ?r4.0 = ?R4 and ?rs4.0 = "[?R4]"]
       route_metric_sum
         [where os = "ex_route_os [] ?t6" and w = ex_route_world
            and conf = "ex_conf True" and ?r6.0 = ?R6
            and ?rs6.0 = "[?R6, Route6 ''fe80::'' 16 ''::'' ex_lo [''::1''] 276]"]
       ex_v1_table ex_v2_table ex_v6_table m
  show ?thesis by simp
qed



text \<open>
  Claim C6, as amended. \<open>read_routes\<close> and \<open>read_routes6\<close> never raise. When building
  the table raises an exception, they log one warning that names the table (IPv4 or IPv6)
  and carries the exception, and return the empty list. When the build succeeds they
  return its table; \<open>read_routes6\<close> returns the empty list without a warning on Windows
  XP. The configuration warning about missing IPv4 routes is logged exactly when the IPv4
  table was built without an exception and is empty.
\<close>

theorem read_routes_contain_failures:
  "(\<exists>rs. fst (read_routes conf os w) = Inr rs) \<and>
   (\<exists>rs. fst (read_routes6 conf os w) = Inr rs) \<and>
   ((if WINDOWS_XP conf then read_routes_c_v1 os w else read_routes_c conf os w False) = Inl e
      \<longrightarrow> read_routes conf os w =
            (Inr [], warn ''Error building scapy IPv4 routing table : %s'' [e] w)) \<and>
   ((if WINDOWS_XP conf then read_routes_c_v1 os w else read_routes_c conf os w False) = Inr rs4
      \<longrightarrow> read_routes conf os w =
            (Inr rs4, if rs4 = [] then warn no_default_routes_msg [] w else w)) \<and>
   (WINDOWS_XP conf \<longrightarrow> read_routes6 conf os w = (Inr [], w)) \<and>
   (\<not> WINDOWS_XP conf \<longrightarrow> read_routes_c conf os w True = Inl e6
      \<longrightarrow> read_routes6 conf os w =
            (Inr [], warn ''Error building scapy IPv6 routing table : %s'' [e6] w)) \<and>
   (\<not> WINDOWS_XP conf \<longrightarrow> read_routes_c conf os w True = Inr rs6
      \<longrightarrow> read_routes6 conf os w = (Inr rs6, w)) \<and>
   (logs (snd (read_routes conf os w)) = logs w @ [Warning no_default_routes_msg []]
      \<longleftrightarrow> (if WINDOWS_XP conf then read_routes_c_v1 os w
            else read_routes_c conf os w False) = Inr [])"
proof -
  let ?b = "if WINDOWS_XP conf then read_routes_c_v1 os w else read_routes_c conf os w False"
  have msg: "no_default_routes_msg \<noteq> ''Error building scapy IPv4 routing table : %s''"
    by (simp add: no_default_routes_msg_def)
  have a: "\<exists>rs. fst (read_routes conf os w) = Inr rs"
    by (cases ?b) (simp_all add: read_routes_def)
  have b: "\<exists>rs. fst (read_routes6 conf os w) = Inr rs"
    by (cases "read_routes_c conf os w True") (simp_all add: read_routes6_def)
  have c: "?b = Inl e \<longrightarrow> read_routes conf os w =
            (Inr [], warn ''Error building scapy IPv4 routing table : %s'' [e] w)"
    by (simp add: read_routes_def)
  have d: "?b = Inr rs4 \<longrightarrow> read_routes conf os w =
            (Inr rs4, if rs4 = [] then warn no_default_routes_msg [] w else w)"
    by (simp add: read_routes_def)
  have e: "WINDOWS_XP conf \<longrightarrow> read_routes6 conf os w = (Inr [], w)"
    by (simp add: read_routes6_def)
  have f: "\<not> WINDOWS_XP conf \<longrightarrow> read_routes_c conf os w True = Inl e6
      \<longrightarrow> read_routes6 conf os w =
            (Inr [], warn ''Error building scapy IPv6 routing table : %s'' [e6] w)"
    by (simp add: read_routes6_def)
  have g: "\<not> WINDOWS_XP conf \<longrightarrow> read_routes_c conf os w True = Inr rs6
      \<longrightarrow> read_routes6 conf os w = (Inr rs6, w)"
    by (simp add: read_routes6_def)
  have h: "logs (snd (read_routes conf os w)) = logs w @ [Warning no_default_routes_msg []]
      \<longleftrightarrow> ?b = Inr []"
    using msg by (cases ?b) (auto simp add: read_routes_def warn_def)
  from a b c d e f g h show ?thesis by blast
qed

theorem read_routes_contain_failures_witness:
  "read_routes (ex_conf True) ex_failing_os ex_route_world =
     (Inr [], warn ''Error building scapy IPv4 routing table : %s''
                [OtherError ''GetIpForwardTable2''] ex_route_world) \<and>
   read_routes6 (ex_conf True) ex_failing_os ex_route_world =
     (Inr [], warn ''Error building scapy IPv6 routing table : %s''
                [OtherError ''GetIpForwardTable2''] ex_route_world) \<and>
   read_routes (ex_conf True) (ex_route_os [] []) ex_route_world =
     (Inr [], warn no_default_routes_msg [] ex_route_world)"
proof -
  have x: "\<not> WINDOWS_XP (ex_conf True)" by (simp add: ex_conf_def)
  from read_routes_contain_failures
         [where conf = "ex_conf True" and os = ex_failing_os and w = ex_route_world
            and e = "OtherError ''GetIpForwardTable2''"
            and ?e6.0 = "OtherError ''GetIpForwardTable2''"]
       read_routes_contain_failures
         [where conf = "ex_conf True" and os = "ex_route_os [] []" and w = ex_route_world
            and ?rs4.0 = "[]"]
       x ex_failing_build ex_empty_build
  show ?thesis by simp
qed

text \<open>
  The claim as first stated fails when the IPv4 build raises: the table returned is empty,
  and the log holds the error warning alone, without the configuration warning.
\<close>

theorem read_routes_contain_failures_counterexample:
  "fst (read_routes (ex_conf True) ex_failing_os ex_route_world) = Inr [] \<and>
   logs (snd (read_routes (ex_conf True) ex_failing_os ex_route_world)) =
     [Warning ''Error building scapy IPv4 routing table : %s''
        [OtherError ''GetIpForwardTable2'']]"
proof -
  have x: "\<not> WINDOWS_XP (ex_conf True)" by (simp add: ex_conf_def)
  have l: "logs ex_route_world = []" by (simp add: ex_route_world_def ex_world_def)
  show ?thesis
    by (simp add: read_routes_def x ex_failing_build warn_def l)
qed

subsection \<open>The address cache\<close>

lemma synthesized_fields:
  "name (synthesized conf os n g l) = n"
  "description (synthesized conf os n g l) = ''[Unknown] '' @ n"
  "win_index (synthesized conf os n g l) = - 1"
  "guid (synthesized conf os n g l) = cache_guid g"
  by (simp_all add: synthesized_def NetworkInterface_def update_fields dummy_data_def)

lemma dict_set_fresh: "\<not> dict_has d k \<Longrightarrow> dict_set d k v = d @ [(k, v)]"
  by (induction d) (auto simp add: dict_has_def)

lemma load_cache_iflist_step:
  "load_cache_iflist conf os d ((n, g, l) # rest) =
     (if \<not> dict_has d (cache_guid g)
      then load_cache_iflist conf os (d @ [(cache_guid g, synthesized conf os n g l)]) rest
      else load_cache_iflist conf os d rest)"
  by (simp add: cache_guid_def synthesized_def Let_def dict_set_fresh)

lemma load_cache_iflist_append:
  "load_cache_iflist conf os d (xs @ ys) =
     load_cache_iflist conf os (load_cache_iflist conf os d xs) ys"
proof (induction xs arbitrary: d)
  case Nil
  then show ?case by simp
next
  case (Cons x xs)
  obtain n g l where x: "x = (n, g, l)" by (cases x)
  show ?case
    unfolding x append_Cons load_cache_iflist_step
    by (simp add: Cons.IH)
qed

text \<open>The loop only appends, and what it appends is synthesized from the cache.\<close>

lemma load_cache_iflist_extends:
  "\<exists>e. load_cache_iflist conf os d cs = d @ e \<and>
       (\<forall>(k, v)\<in>set e. \<exists>(n, g, l)\<in>set cs. k = cache_guid g \<and> v = synthesized conf os n g l)"
proof (induction cs arbitrary: d)
  case Nil
  then show ?case by simp
next
  case (Cons x cs)
  obtain n g l where x: "x = (n, g, l)" by (cases x)
  show ?case
  proof (cases "dict_has d (cache_guid g)")
    case True
    from Cons.IH [of d] obtain e where
      "load_cache_iflist conf os d cs = d @ e"
      "\<forall>(k, v)\<in>set e. \<exists>(n, g, l)\<in>set cs. k = cache_guid g \<and> v = synthesized conf os n g l"
      by blast
    with True show ?thesis
      unfolding x load_cache_iflist_step by auto
  next
    case False
    let ?d = "d @ [(cache_guid g, synthesized conf os n g l)]"
    from Cons.IH [of ?d] obtain e where
      e: "load_cache_iflist conf os ?d cs = ?d @ e"
      "\<forall>(k, v)\<in>set e. \<exists>(n, g, l)\<in>set cs. k = cache_guid g \<and> v = synthesized conf os n g l"
      by blast
    have "load_cache_iflist conf os d (x # cs) =
            d @ ((cache_guid g, synthesized conf os n g l) # e)"
      using False e(1) unfolding x load_cache_iflist_step by simp
    moreover have "\<forall>(k, v)\<in>set ((cache_guid g, synthesized conf os n g l) # e).
       \<exists>(n, g, l)\<in>set (x # cs). k = cache_guid g \<and> v = synthesized conf os n g l"
      using e(2) x by auto
    ultimately show ?thesis by blast
  qed
qed

lemma find_app:
  "find P (xs @ ys) = (case find P xs of None \<Rightarrow> find P ys | Some x \<Rightarrow> Some x)"
  by (induction xs) auto

lemma map_of_app_fresh: "k \<notin> set (map fst xs) \<Longrightarrow> map_of (xs @ ys) k = map_of ys k"
  by (induction xs) auto

lemma load_cache_iflist_shape:
  assumes fresh: "\<not> dict_has d (cache_guid g)"
    and first: "cache_guid g \<notin> set (map (\<lambda>(n', g', l'). cache_guid g') before)"
  shows "\<exists>e1 e2.
           load_cache_iflist conf os d (before @ (n, g, l) # after) =
             d @ e1 @ [(cache_guid g, synthesized conf os n g l)] @ e2 \<and>
           (\<forall>(k, v)\<in>set e1. \<exists>(n', g', l')\<in>set before.
               k = cache_guid g' \<and> v = synthesized conf os n' g' l')"
proof -
  from load_cache_iflist_extends [of conf os d before] obtain e1 where
    e1: "load_cache_iflist conf os d before = d @ e1"
    "\<forall>(k, v)\<in>set e1. \<exists>(n', g', l')\<in>set before.
        k = cache_guid g' \<and> v = synthesized conf os n' g' l'"
    by blast
  have k1: "cache_guid g \<notin> set (map fst e1)"
  proof
    assume "cache_guid g \<in> set (map fst e1)"
    then obtain v where "(cache_guid g, v) \<in> set e1" by auto
    with e1(2) obtain n' g' l' where "(n', g', l') \<in> set before" "cache_guid g = cache_guid g'"
      by fastforce
    with first show False by force
  qed
  with fresh have nk: "\<not> dict_has (d @ e1) (cache_guid g)"
    by (simp add: dict_has_def)
  let ?d = "(d @ e1) @ [(cache_guid g, synthesized conf os n g l)]"
  from load_cache_iflist_extends [of conf os ?d after] obtain e2 where
    e2: "load_cache_iflist conf os ?d after = ?d @ e2"
    by blast
  have "load_cache_iflist conf os d (before @ (n, g, l) # after) =
          d @ e1 @ [(cache_guid g, synthesized conf os n g l)] @ e2"
    unfolding load_cache_iflist_append e1(1) load_cache_iflist_step
    using nk e2 by simp
  with e1(2) show ?thesis by blast
qed

text \<open>
  The steps of \<open>load\<close> between the two loops (service query and start, the question to
  the operator, warnings, the loopback replacement) leave the registry as it is.
\<close>

lemma IFACES_pcap_service_status:
  "IFACES_data (snd (pcap_service_status conf os w)) = IFACES_data w"
  "restarted_adapter (snd (pcap_service_status conf os w)) = restarted_adapter w"
  by (simp_all add: pcap_service_status_def exec_cmd_eq Let_def split: prod.splits)

lemma IFACES_pcap_service_start:
  "IFACES_data (snd (pcap_service_start conf os w a)) = IFACES_data w"
  by (simp add: pcap_service_start_def pcap_service_control_def exec_cmd_eq Let_def
        split: prod.splits)

lemma IFACES_ask_user:
  "IFACES_data (snd (ask_user conf w)) = IFACES_data w"
  by (simp add: ask_user_def Let_def split: prod.splits)

lemma IFACES_warn: "IFACES_data (warn msg args w) = IFACES_data w"
  by (simp add: warn_def)

lemma IFACES_replace_loopback: "IFACES_data (replace_loopback conf w) = IFACES_data w"
  by (simp add: replace_loopback_def split: sum.splits)

lemma IFACES_merge_cache:
  "IFACES_data (merge_cache conf os w) =
     load_cache_iflist conf os (IFACES_data w) (cache_iflist conf)"
  by (simp add: merge_cache_def)

lemmas IFACES_steps =
  IFACES_pcap_service_status IFACES_pcap_service_start IFACES_ask_user IFACES_warn
  IFACES_replace_loopback IFACES_merge_cache

lemma dict_set_not_Nil: "dict_set d k v \<noteq> []"
  by (cases d) (auto split: if_splits)

lemma load_interfaces_Nil:
  "load_interfaces conf os d ifl = [] \<Longrightarrow> d = []"
proof (induction ifl arbitrary: d)
  case Nil
  then show ?case by simp
next
  case (Cons i ifl)
  from Cons.prems have
    "dict_set d (guid (NetworkInterface conf os i)) (NetworkInterface conf os i) = []"
    by (auto simp add: Let_def dest: Cons.IH)
  then show ?case by (simp add: dict_set_not_Nil)
qed

text \<open>A \<open>load\<close> that runs after the service was restarted does not restart it again.\<close>

lemma load_restarted_registry:
  assumes "os_access conf" and "restarted_adapter w = Some True"
    and "get_windows_if_list conf os False = Inr ifl"
  shows "fst (load conf os w) = Inr ()"
    and "IFACES_data (snd (load conf os w)) =
           load_cache_iflist conf os (load_interfaces conf os (IFACES_data w) ifl)
             (cache_iflist conf)"
  using assms
  by (subst load.simps, simp add: Let_def IFACES_steps)+

lemma load_completes:
  assumes "os_access conf" and "get_windows_if_list conf os False = Inr ifl"
    and "load_interfaces conf os (IFACES_data w) ifl \<noteq> [] \<or> \<not> use_winpcapy conf \<or>
         \<not> interactive conf"
  shows "fst (load conf os w) = Inr ()"
  using assms
  by (subst load.simps) (auto simp add: Let_def load_restarted_registry(1))

lemma load_registry:
  assumes acc: "os_access conf" and enum: "get_windows_if_list conf os False = Inr ifl"
    and ok: "fst (load conf os w) = Inr ()"
  shows "IFACES_data (snd (load conf os w)) =
           load_cache_iflist conf os (load_interfaces conf os (IFACES_data w) ifl)
             (cache_iflist conf)"
proof (cases "load_interfaces conf os (IFACES_data w) ifl = []")
  case False
  with acc enum show ?thesis
    by (subst load.simps) (simp add: Let_def IFACES_steps)
next
  case True
  then have d: "IFACES_data w = []" by (rule load_interfaces_Nil)
  from True d have e: "load_interfaces conf os [] ifl = []" by simp
  from acc enum ok True e show ?thesis
    apply (subst load.simps)
    apply (subst (asm) load.simps)
    apply (auto simp add: Let_def IFACES_steps load_restarted_registry(2) [where ifl = ifl]
        split: sum.splits if_splits)
    done
qed

lemma load_normal:
  assumes "os_access conf"
    and "get_windows_if_list conf os False = Inr l"
    and "load_interfaces conf os (IFACES_data w) l \<noteq> []"
  shows "load conf os w =
           (Inr (), merge_cache conf os
              (replace_loopback conf
                 (w\<lparr>IFACES_data := load_interfaces conf os (IFACES_data w) l\<rparr>)))"
  using assms by (subst load.simps) (simp add: Let_def)

lemma ex_cache_guid: "cache_guid ex_raw_guid = ''{N}''"
  by (simp add: cache_guid_def ex_raw_guid_def npf_prefix_def py_replace_def py_upper_def
        upper_char_def ascii_lower_def ascii_upper_def)

lemma ex_if_list:
  "get_windows_if_list (ex_cache_conf True c) (ex_os devs p) False = Inr [ex_if_data]"
  by (simp add: get_windows_if_list_def ex_os_def normalize_adapter_def get_ips_adapter_def
        resolve_ips_def ex_adapter_def get_mac_def str2mac_def hex2_def hex_digit_def
        ex_cache_conf_def ex_conf_def ex_if_data_def)

lemma ex_os_iface:
  "name (NetworkInterface conf os ex_if_data) = ''Ethernet''"
  "description (NetworkInterface conf os ex_if_data) = ''Intel NIC''"
  "guid (NetworkInterface conf os ex_if_data) = ''{A}''"
  "win_index (NetworkInterface conf os ex_if_data) = 5"
  by (simp_all add: NetworkInterface_def update_fields ex_if_data_def)

lemma ex_load:
  "load (ex_cache_conf True c) (ex_os devs p) (ex_world [] None) =
     (Inr (), merge_cache (ex_cache_conf True c) (ex_os devs p)
                (ex_enumerated (ex_cache_conf True c) (ex_os devs p)))"
proof -
  let ?C = "ex_cache_conf True c"
  let ?O = "ex_os devs p"
  have a: "os_access ?C" "LOOPBACK_NAME ?C = ''Npcap Loopback Adapter''"
    by (simp_all add: ex_cache_conf_def ex_conf_def)
  have d: "IFACES_data (ex_world [] None) = []" by (simp add: ex_world_def)
  have r: "replace_loopback ?C (ex_enumerated ?C ?O) = ex_enumerated ?C ?O"
    by (simp add: replace_loopback_def dev_from_name_def ex_enumerated_def itervalues_def
          ex_os_iface a)
  have li: "load_interfaces ?C ?O (IFACES_data (ex_world [] None)) [ex_if_data] =
              [(''{A}'', NetworkInterface ?C ?O ex_if_data)]"
    by (simp add: d Let_def ex_os_iface)
  have e: "(ex_world [] None)
             \<lparr>IFACES_data := load_interfaces ?C ?O (IFACES_data (ex_world [] None)) [ex_if_data]\<rparr>
           = ex_enumerated ?C ?O"
    by (simp only: li ex_enumerated_def)
  have ne: "load_interfaces ?C ?O (IFACES_data (ex_world [] None)) [ex_if_data] \<noteq> []"
    by (simp only: li) simp
  show ?thesis
    using load_normal [OF a(1) ex_if_list ne] by (simp only: e r)
qed

lemma ex_merge_lookup:
  "map_of (IFACES_data (merge_cache (ex_cache_conf True (ex_cache n)) os
             (ex_enumerated (ex_cache_conf True (ex_cache n)) os))) ''{N}'' =
     Some (synthesized (ex_cache_conf True (ex_cache n)) os n ex_raw_guid [''10.9.0.1''])"
proof -
  let ?C = "ex_cache_conf True (ex_cache n)"
  have c: "cache_iflist ?C = [(n, ex_raw_guid, [''10.9.0.1''])]"
    by (simp add: ex_cache_conf_def ex_cache_def)
  have "IFACES_data (merge_cache ?C os (ex_enumerated ?C os)) =
          [(''{A}'', NetworkInterface ?C os ex_if_data),
           (''{N}'', synthesized ?C os n ex_raw_guid [''10.9.0.1''])]"
    unfolding merge_cache_def ex_enumerated_def c
    by (simp add: load_cache_iflist_step dict_has_def ex_cache_guid del: load_cache_iflist.simps(2))
  then show ?thesis by simp
qed

lemma cache_entry_skipped:
  assumes reg: "IFACES_data w' = load_cache_iflist conf os d (cache_iflist conf)"
    and present: "dict_has d k"
  shows "map_of (IFACES_data w') k = map_of d k"
proof -
  from load_cache_iflist_extends [of conf os d "cache_iflist conf"] obtain e where
    "load_cache_iflist conf os d (cache_iflist conf) = d @ e"
    by blast
  moreover from present have "map_of d k \<noteq> None"
    by (simp add: dict_has_def map_of_eq_None_iff)
  then obtain v where "map_of d k = Some v" by blast
  ultimately show ?thesis
    by (simp add: reg map_add_def)
qed

lemma cache_entry_synthesized:
  assumes reg0: "IFACES_data w' = load_cache_iflist conf os d (cache_iflist conf)"
    and cache: "cache_iflist conf = before @ (n, g, l) # after"
    and fresh: "\<not> dict_has d (cache_guid g)"
    and first: "cache_guid g \<notin> set (map (\<lambda>(n', g', l'). cache_guid g') before)"
  shows "map_of (IFACES_data w') (cache_guid g) = Some (synthesized conf os n g l)"
    and "\<exists>e. dev_from_name w' n = Inr e \<and> (name e = n \<or> description e = n)"
    and "(\<forall>e\<in>set (itervalues d). name e \<noteq> n \<and> description e \<noteq> n) \<Longrightarrow>
         (\<forall>(n', g', l')\<in>set before. n' \<noteq> n \<and> ''[Unknown] '' @ n' \<noteq> n) \<Longrightarrow>
           dev_from_name w' n = Inr (synthesized conf os n g l)"
proof -
  let ?v = "synthesized conf os n g l"
  let ?P = "\<lambda>i. name i = n \<or> description i = n"
  from load_cache_iflist_shape [OF fresh first, of conf os n l after]
  obtain e1 e2 where
    sh: "load_cache_iflist conf os d (before @ (n, g, l) # after) =
           d @ e1 @ [(cache_guid g, ?v)] @ e2"
    and e1: "\<forall>(k, v)\<in>set e1. \<exists>(n', g', l')\<in>set before.
               k = cache_guid g' \<and> v = synthesized conf os n' g' l'"
    by blast
  have reg: "IFACES_data w' = d @ e1 @ [(cache_guid g, ?v)] @ e2"
    by (simp add: reg0 cache sh)
  have k0: "cache_guid g \<notin> set (map fst d)"
    using fresh by (simp add: dict_has_def)
  have k1: "cache_guid g \<notin> set (map fst e1)"
  proof
    assume "cache_guid g \<in> set (map fst e1)"
    then obtain v where "(cache_guid g, v) \<in> set e1" by auto
    with e1 obtain n' g' l' where "(n', g', l') \<in> set before" "cache_guid g = cache_guid g'"
      by fastforce
    with first show False by force
  qed
  show "map_of (IFACES_data w') (cache_guid g) = Some ?v"
    by (simp only: reg map_of_app_fresh [OF k0] map_of_app_fresh [OF k1]) simp
  have pv: "?P ?v" by (simp add: synthesized_fields)
  have vals: "itervalues (IFACES_data w') = map snd d @ map snd e1 @ [?v] @ map snd e2"
    by (simp add: reg itervalues_def)
  have "find ?P (itervalues (IFACES_data w')) \<noteq> None"
    using pv by (auto simp add: vals find_None_conv)
  then obtain e where fe: "find ?P (itervalues (IFACES_data w')) = Some e"
    by blast
  from find_Some_set [OF fe] have "?P e" by simp
  with fe show "\<exists>e. dev_from_name w' n = Inr e \<and> ?P e"
    by (simp add: dev_from_name_def)
  show "dev_from_name w' n = Inr ?v"
    if os_free: "\<forall>e\<in>set (itervalues d). name e \<noteq> n \<and> description e \<noteq> n"
      and cache_free: "\<forall>(n', g', l')\<in>set before. n' \<noteq> n \<and> ''[Unknown] '' @ n' \<noteq> n"
  proof -
    have f0: "find ?P (map snd d) = None"
      using os_free by (simp add: find_None_conv itervalues_def)
    have f1: "find ?P (map snd e1) = None"
    proof -
      have "\<not> ?P x" if "x \<in> set (map snd e1)" for x
      proof -
        from that obtain k where "(k, x) \<in> set e1" by auto
        with e1 obtain n' g' l' where
          "(n', g', l') \<in> set before" "x = synthesized conf os n' g' l'"
          by fastforce
        with cache_free show ?thesis
          by (auto simp add: synthesized_fields)
      qed
      then show ?thesis by (simp add: find_None_conv)
    qed
    show ?thesis
      using pv by (simp add: dev_from_name_def vals find_app f0 f1)
  qed
qed

lemma ex_enumeration:
  "enumerated (ex_cache_conf True c) (ex_os devs p) (ex_world [] None) [ex_if_data] =
     [(''{A}'', NetworkInterface (ex_cache_conf True c) (ex_os devs p) ex_if_data)]"
  by (simp add: enumerated_def ex_world_def Let_def ex_os_iface)

text \<open>
  Claim C9, as amended. Without OS access \<open>load\<close> returns at once and leaves the
  registry as it is. With OS access and an enumeration \<open>ifl\<close> of the adapters,
  \<open>load\<close> completes whenever the enumeration fills the registry, or no pcap service is
  in use, or the session is not interactive; and when \<open>load\<close> completes, the registry
  it leaves is the enumeration followed by the merge of the address cache. For a cache entry
  \<open>(name, (guid, ips))\<close>: when its normalized identifier is a key of the enumeration, the
  entry is skipped and the enumerated interface stays under that key; when the identifier is
  not a key of the enumeration and not the identifier of an earlier cache entry, the registry
  that \<open>load\<close> leaves holds under it a synthesized interface named \<open>name\<close>, with index
  \<open>-1\<close> and description \<open>"[Unknown] " + name\<close>. \<open>dev_from_name(name)\<close> then
  succeeds on that registry and returns the first entry whose name or description is
  \<open>name\<close>; this is the synthesized interface when no enumerated interface and no earlier
  cache entry has that name or description.
\<close>

theorem load_synthesizes_cache_entries:
  "(\<not> os_access conf \<longrightarrow> load conf os w = (Inr (), w)) \<and>
   (os_access conf \<longrightarrow> get_windows_if_list conf os False = Inr ifl \<longrightarrow>
      (enumerated conf os w ifl \<noteq> [] \<or> \<not> use_winpcapy conf \<or> \<not> interactive conf \<longrightarrow>
         fst (load conf os w) = Inr ()) \<and>
      (fst (load conf os w) = Inr () \<longrightarrow>
         IFACES_data (snd (load conf os w)) =
           load_cache_iflist conf os (enumerated conf os w ifl) (cache_iflist conf) \<and>
         (cache_iflist conf = before @ (n, g, l) # after \<longrightarrow>
            (dict_has (enumerated conf os w ifl) (cache_guid g) \<longrightarrow>
               map_of (IFACES_data (snd (load conf os w))) (cache_guid g) =
                 map_of (enumerated conf os w ifl) (cache_guid g)) \<and>
            (\<not> dict_has (enumerated conf os w ifl) (cache_guid g) \<longrightarrow>
             cache_guid g \<notin> set (map (\<lambda>(n', g', l'). cache_guid g') before) \<longrightarrow>
               map_of (IFACES_data (snd (load conf os w))) (cache_guid g)
                 = Some (synthesized conf os n g l) \<and>
               win_index (synthesized conf os n g l) = - 1 \<and>
               description (synthesized conf os n g l) = ''[Unknown] '' @ n \<and>
               name (synthesized conf os n g l) = n \<and>
               (\<exists>e. dev_from_name (snd (load conf os w)) n = Inr e \<and>
                    (name e = n \<or> description e = n)) \<and>
               ((\<forall>e\<in>set (itervalues (enumerated conf os w ifl)).
                    name e \<noteq> n \<and> description e \<noteq> n) \<longrightarrow>
                (\<forall>(n', g', l')\<in>set before. n' \<noteq> n \<and> ''[Unknown] '' @ n' \<noteq> n) \<longrightarrow>
                  dev_from_name (snd (load conf os w)) n =
                    Inr (synthesized conf os n g l))))))"
proof -
  let ?E = "enumerated conf os w ifl"
  let ?w' = "snd (load conf os w)"
  let ?v = "synthesized conf os n g l"
  have a: "\<not> os_access conf \<longrightarrow> load conf os w = (Inr (), w)"
    by (subst load.simps) simp
  have b: "fst (load conf os w) = Inr ()"
    if "os_access conf" "get_windows_if_list conf os False = Inr ifl"
      "?E \<noteq> [] \<or> \<not> use_winpcapy conf \<or> \<not> interactive conf"
    using that load_completes [of conf os ifl w] by (simp add: enumerated_def)
  have c: "IFACES_data ?w' = load_cache_iflist conf os ?E (cache_iflist conf)"
    if "os_access conf" "get_windows_if_list conf os False = Inr ifl"
      "fst (load conf os w) = Inr ()"
    using that load_registry [of conf os ifl w] by (simp add: enumerated_def)
  have d: "map_of (IFACES_data ?w') (cache_guid g) = map_of ?E (cache_guid g)"
    if "os_access conf" "get_windows_if_list conf os False = Inr ifl"
      "fst (load conf os w) = Inr ()" "dict_has ?E (cache_guid g)"
    using cache_entry_skipped [OF c] that by blast
  have e: "map_of (IFACES_data ?w') (cache_guid g) = Some ?v \<and>
      win_index ?v = - 1 \<and> description ?v = ''[Unknown] '' @ n \<and> name ?v = n \<and>
      (\<exists>e. dev_from_name ?w' n = Inr e \<and> (name e = n \<or> description e = n)) \<and>
      ((\<forall>e\<in>set (itervalues ?E). name e \<noteq> n \<and> description e \<noteq> n) \<longrightarrow>
       (\<forall>(n', g', l')\<in>set before. n' \<noteq> n \<and> ''[Unknown] '' @ n' \<noteq> n) \<longrightarrow>
         dev_from_name ?w' n = Inr ?v)"
    if h: "os_access conf" "get_windows_if_list conf os False = Inr ifl"
      "fst (load conf os w) = Inr ()"
      and cache: "cache_iflist conf = before @ (n, g, l) # after"
      and fresh: "\<not> dict_has ?E (cache_guid g)"
      and first: "cache_guid g \<notin> set (map (\<lambda>(n', g', l'). cache_guid g') before)"
    using cache_entry_synthesized [OF c [OF h] cache fresh first]
    by (simp add: synthesized_fields)
  from a b c d e show ?thesis by blast
qed

theorem load_synthesizes_cache_entries_witness:
  "load (ex_cache_conf False (ex_cache ''eth9'')) (ex_os [] ex_popen) (ex_world [] None) =
     (Inr (), ex_world [] None) \<and>
   fst (load (ex_cache_conf True (ex_cache ''eth9'')) (ex_os [] ex_popen) (ex_world [] None)) =
     Inr () \<and>
   map_of (IFACES_data (snd (load (ex_cache_conf True (ex_cache ''eth9'')) (ex_os [] ex_popen)
                               (ex_world [] None)))) ''{N}'' =
     Some (synthesized (ex_cache_conf True (ex_cache ''eth9'')) (ex_os [] ex_popen)
             ''eth9'' ex_raw_guid [''10.9.0.1'']) \<and>
   win_index (synthesized (ex_cache_conf True (ex_cache ''eth9'')) (ex_os [] ex_popen)
                ''eth9'' ex_raw_guid [''10.9.0.1'']) = - 1 \<and>
   description (synthesized (ex_cache_conf True (ex_cache ''eth9'')) (ex_os [] ex_popen)
                ''eth9'' ex_raw_guid [''10.9.0.1'']) = ''[Unknown] eth9'' \<and>
   dev_from_name (snd (load (ex_cache_conf True (ex_cache ''eth9'')) (ex_os [] ex_popen)
                         (ex_world [] None))) ''eth9'' =
     Inr (synthesized (ex_cache_conf True (ex_cache ''eth9'')) (ex_os [] ex_popen)
             ''eth9'' ex_raw_guid [''10.9.0.1'']) \<and>
   map_of (IFACES_data (snd (load (ex_cache_conf True [(''eth9'', ''{a}'', [])])
                               (ex_os [] ex_popen) (ex_world [] None)))) ''{A}'' =
     Some (NetworkInterface (ex_cache_conf True [(''eth9'', ''{a}'', [])]) (ex_os [] ex_popen)
             ex_if_data)"
proof -
  let ?C = "ex_cache_conf True (ex_cache ''eth9'')"
  let ?D = "ex_cache_conf False (ex_cache ''eth9'')"
  let ?K = "ex_cache_conf True [(''eth9'', ''{a}'', [])]"
  let ?O = "ex_os [] ex_popen"
  let ?W = "ex_world [] None"
  let ?l = "[''10.9.0.1'']"
  have na: "\<not> os_access ?D" by (simp add: ex_cache_conf_def)
  have acc: "os_access (ex_cache_conf True c)" for c
    by (simp add: ex_cache_conf_def ex_conf_def)
  have ne: "enumerated (ex_cache_conf True c) ?O ?W [ex_if_data] \<noteq> [] \<or>
            \<not> use_winpcapy (ex_cache_conf True c) \<or> \<not> interactive (ex_cache_conf True c)" for c
    by (simp add: ex_enumeration)
  have c: "cache_iflist ?C = [] @ (''eth9'', ex_raw_guid, ?l) # []"
    by (simp add: ex_cache_conf_def ex_cache_def)
  have k: "cache_iflist ?K = [] @ (''eth9'', ''{a}'', []) # []"
    by (simp add: ex_cache_conf_def)
  have ga: "cache_guid ''{a}'' = ''{A}''"
    by (simp add: cache_guid_def npf_prefix_def py_replace_def py_upper_def
          upper_char_def ascii_lower_def ascii_upper_def)
  have h1: "\<not> dict_has (enumerated ?C ?O ?W [ex_if_data]) (cache_guid ex_raw_guid)"
    by (simp add: ex_enumeration dict_has_def ex_cache_guid)
  have h2: "cache_guid ex_raw_guid \<notin> set (map (\<lambda>(n', g', l'). cache_guid g') [])"
    by simp
  have h3: "\<forall>e\<in>set (itervalues (enumerated ?C ?O ?W [ex_if_data])).
              name e \<noteq> ''eth9'' \<and> description e \<noteq> ''eth9''"
    by (simp add: ex_enumeration itervalues_def ex_os_iface)
  have h4: "\<forall>(n', g', l')\<in>set []. n' \<noteq> ''eth9'' \<and> ''[Unknown] '' @ n' \<noteq> ''eth9''"
    by simp
  have h5: "dict_has (enumerated ?K ?O ?W [ex_if_data]) (cache_guid ''{a}'')"
    by (simp add: ex_enumeration dict_has_def ga)
  have a: "load ?D ?O ?W = (Inr (), ?W)"
    using load_synthesizes_cache_entries
      [where conf = ?D and os = ?O and w = ?W, THEN conjunct1] na by simp
  note t = load_synthesizes_cache_entries
      [where conf = ?C and os = ?O and w = ?W and ifl = "[ex_if_data]" and before = "[]"
         and n = "''eth9''" and g = ex_raw_guid and l = ?l and after = "[]",
       THEN conjunct2, rule_format, OF acc ex_if_list]
  from t ne have ok: "fst (load ?C ?O ?W) = Inr ()" by blast
  note x = t [THEN conjunct2, rule_format, OF ok, THEN conjunct2, rule_format, OF c,
              THEN conjunct2, rule_format, OF h1 h2]
  from x h3 h4 have r: "dev_from_name (snd (load ?C ?O ?W)) ''eth9'' =
      Inr (synthesized ?C ?O ''eth9'' ex_raw_guid ?l)"
    by blast
  note u = load_synthesizes_cache_entries
      [where conf = ?K and os = ?O and w = ?W and ifl = "[ex_if_data]" and before = "[]"
         and n = "''eth9''" and g = "''{a}''" and l = "[]" and after = "[]",
       THEN conjunct2, rule_format, OF acc ex_if_list]
  from u ne have ok': "fst (load ?K ?O ?W) = Inr ()" by blast
  note y = u [THEN conjunct2, rule_format, OF ok', THEN conjunct2, rule_format, OF k,
              THEN conjunct1, rule_format, OF h5]
  have s: "map_of (IFACES_data (snd (load ?K ?O ?W))) ''{A}'' =
             Some (NetworkInterface ?K ?O ex_if_data)"
    using y by (simp add: ga ex_enumeration)
  from a ok x r s show ?thesis by (simp add: ex_cache_guid)
qed

text \<open>
  The claim as first stated fails in two ways. Without OS access, \<open>load\<close> synthesizes
  nothing and \<open>dev_from_name\<close> raises \<open>ValueError\<close> for the cached name. With OS access
  and a cache entry named \<open>Ethernet\<close> like the adapter the OS enumerates, the entry is
  synthesized under \<open>{N}\<close> with index \<open>-1\<close>, but \<open>dev_from_name\<close> returns the
  enumerated adapter, whose index is 5.
\<close>

theorem load_synthesizes_cache_entries_counterexample:
  "load (ex_cache_conf False (ex_cache ''eth9'')) (ex_os [] ex_popen) (ex_world [] None) =
     (Inr (), ex_world [] None) \<and>
   dev_from_name (ex_world [] None) ''eth9'' = Inl ValueError \<and>
   load (ex_cache_conf True (ex_cache ''Ethernet'')) (ex_os [] ex_popen) (ex_world [] None) =
     (Inr (), merge_cache (ex_cache_conf True (ex_cache ''Ethernet'')) (ex_os [] ex_popen)
                (ex_enumerated (ex_cache_conf True (ex_cache ''Ethernet'')) (ex_os [] ex_popen))) \<and>
   map_of (IFACES_data (merge_cache (ex_cache_conf True (ex_cache ''Ethernet'')) (ex_os [] ex_popen)
             (ex_enumerated (ex_cache_conf True (ex_cache ''Ethernet'')) (ex_os [] ex_popen))))
      ''{N}'' =
     Some (synthesized (ex_cache_conf True (ex_cache ''Ethernet'')) (ex_os [] ex_popen)
             ''Ethernet'' ex_raw_guid [''10.9.0.1'']) \<and>
   win_index (synthesized (ex_cache_conf True (ex_cache ''Ethernet'')) (ex_os [] ex_popen)
                ''Ethernet'' ex_raw_guid [''10.9.0.1'']) = - 1 \<and>
   dev_from_name (merge_cache (ex_cache_conf True (ex_cache ''Ethernet'')) (ex_os [] ex_popen)
             (ex_enumerated (ex_cache_conf True (ex_cache ''Ethernet'')) (ex_os [] ex_popen)))
      ''Ethernet'' =
     Inr (NetworkInterface (ex_cache_conf True (ex_cache ''Ethernet'')) (ex_os [] ex_popen)
            ex_if_data) \<and>
   win_index (NetworkInterface (ex_cache_conf True (ex_cache ''Ethernet'')) (ex_os [] ex_popen)
                ex_if_data) = 5"
proof -
  let ?C = "ex_cache_conf True (ex_cache ''Ethernet'')"
  let ?D = "ex_cache_conf False (ex_cache ''eth9'')"
  let ?O = "ex_os [] ex_popen"
  let ?W = "ex_world [] None"
  let ?E = "ex_enumerated ?C ?O"
  have a: "load ?D ?O ?W = (Inr (), ?W)"
    by (subst load.simps) (simp add: ex_cache_conf_def)
  have b: "dev_from_name ?W ''eth9'' = Inl ValueError"
    by (simp add: dev_from_name_def ex_world_def itervalues_def)
  have c: "cache_iflist ?C = [(''Ethernet'', ex_raw_guid, [''10.9.0.1''])]"
    by (simp add: ex_cache_conf_def ex_cache_def)
  have d: "IFACES_data (merge_cache ?C ?O ?E) =
          [(''{A}'', NetworkInterface ?C ?O ex_if_data),
           (''{N}'', synthesized ?C ?O ''Ethernet'' ex_raw_guid [''10.9.0.1''])]"
    unfolding merge_cache_def ex_enumerated_def c
    by (simp add: load_cache_iflist_step dict_has_def ex_cache_guid del: load_cache_iflist.simps(2))
  have e: "dev_from_name (merge_cache ?C ?O ?E) ''Ethernet'' =
             Inr (NetworkInterface ?C ?O ex_if_data)"
    by (simp add: dev_from_name_def d itervalues_def ex_os_iface)
  from a b ex_load [of "ex_cache ''Ethernet''" "[]" ex_popen] ex_merge_lookup [of "''Ethernet''" ?O]
    e synthesized_fields ex_os_iface
  show ?thesis by simp
qed

end
